theory Spec2Isabelle
  imports Main "HOL-Library.Log_Nat" "HOL-Library.AList"
begin

section \<open>Python values\<close>

subsection \<open>Floats\<close>

text \<open>
  A Python \<^verbatim>\<open>float\<close> is an IEEE 754 binary64 number. \<open>Finite q\<close> is the finite
  double whose exact value is the rational \<open>q\<close> (\<open>Finite 0\<close> is \<open>+0.0\<close>), \<open>NegZero\<close> is
  \<open>-0.0\<close>. The decoder of the \<^verbatim>\<open>json\<close> module accepts \<^verbatim>\<open>NaN\<close>, \<^verbatim>\<open>Infinity\<close> and
  \<^verbatim>\<open>-Infinity\<close>, so all three can reach the merge.
\<close>

datatype pyfloat = Finite rat | NegZero | PInf | NInf | NaN

definition two_pow :: "int \<Rightarrow> rat" where
  "two_pow e = (if 0 \<le> e then 2 ^ nat e else 1 / 2 ^ nat (- e))"

text \<open>\<open>ilog2 x\<close> is \<open>\<lfloor>log\<^sub>2 \<bar>x\<bar>\<rfloor>\<close> for \<open>x \<noteq> 0\<close>, from the bit lengths of numerator and denominator.\<close>

definition ilog2 :: "rat \<Rightarrow> int" where
  "ilog2 x =
     (let (p, q) = quotient_of \<bar>x\<bar>;
          d = bitlen p - bitlen q
      in if two_pow d \<le> \<bar>x\<bar> then d else d - 1)"

definition round_half_even :: "rat \<Rightarrow> int" where
  "round_half_even y =
     (let f = \<lfloor>y\<rfloor>; r = y - of_int f
      in if r < 1 / 2 then f
         else if 1 / 2 < r then f + 1
         else if even f then f else f + 1)"

text \<open>
  Round to nearest, ties to even, on a 53-bit significand; below \<open>2\<^sup>-\<^sup>1\<^sup>0\<^sup>2\<^sup>2\<close> the spacing
  stays \<open>2\<^sup>-\<^sup>1\<^sup>0\<^sup>7\<^sup>4\<close> (subnormal numbers). The exponent is not bounded above here: \<open>fl\<close>
  turns a rounded magnitude of \<open>2\<^sup>1\<^sup>0\<^sup>2\<^sup>4\<close> or more into an infinity.
\<close>

definition rnd :: "rat \<Rightarrow> rat" where
  "rnd x =
     (if x = 0 then 0
      else let q = two_pow (max (ilog2 x) (- 1022) - 52)
           in of_int (round_half_even (x / q)) * q)"

definition fl :: "rat \<Rightarrow> pyfloat" where
  "fl x =
     (let r = rnd x
      in if 2 ^ 1024 \<le> \<bar>r\<bar> then (if 0 < x then PInf else NInf)
         else if r = 0 \<and> x < 0 then NegZero
         else Finite r)"

text \<open>A float literal of the source, such as \<^verbatim>\<open>0.7\<close>, is the double nearest to the decimal.\<close>

definition float_lit :: "rat \<Rightarrow> pyfloat" where
  "float_lit q = fl q"

fun is_neg :: "pyfloat \<Rightarrow> bool" where
  "is_neg (Finite q) = (q < 0)"
| "is_neg NegZero = True"
| "is_neg PInf = False"
| "is_neg NInf = True"
| "is_neg NaN = False"

fun is_inf :: "pyfloat \<Rightarrow> bool" where
  "is_inf PInf = True"
| "is_inf NInf = True"
| "is_inf _ = False"

fun fval :: "pyfloat \<Rightarrow> rat" where
  "fval (Finite q) = q"
| "fval _ = 0"

definition is_zero :: "pyfloat \<Rightarrow> bool" where
  "is_zero a = (a = Finite 0 \<or> a = NegZero)"

definition signed_zero :: "bool \<Rightarrow> pyfloat" where
  "signed_zero neg = (if neg then NegZero else Finite 0)"

definition signed_inf :: "bool \<Rightarrow> pyfloat" where
  "signed_inf neg = (if neg then NInf else PInf)"

text \<open>\<^verbatim>\<open>a * b\<close> on floats.\<close>

definition fmul :: "pyfloat \<Rightarrow> pyfloat \<Rightarrow> pyfloat" where
  "fmul a b =
     (if a = NaN \<or> b = NaN then NaN
      else if (is_inf a \<and> is_zero b) \<or> (is_zero a \<and> is_inf b) then NaN
      else if is_inf a \<or> is_inf b then signed_inf (is_neg a \<noteq> is_neg b)
      else if fval a * fval b = 0 then signed_zero (is_neg a \<noteq> is_neg b)
      else fl (fval a * fval b))"

text \<open>\<^verbatim>\<open>a + b\<close> on floats.\<close>

definition fadd :: "pyfloat \<Rightarrow> pyfloat \<Rightarrow> pyfloat" where
  "fadd a b =
     (if a = NaN \<or> b = NaN then NaN
      else if is_inf a \<and> is_inf b then (if a = b then a else NaN)
      else if is_inf a then a
      else if is_inf b then b
      else if fval a + fval b = 0 then signed_zero (a = NegZero \<and> b = NegZero)
      else fl (fval a + fval b))"

text \<open>\<^verbatim>\<open>a <= b\<close> and \<^verbatim>\<open>a >= b\<close> on floats: false as soon as one side is NaN.\<close>

definition fle :: "pyfloat \<Rightarrow> pyfloat \<Rightarrow> bool" where
  "fle a b =
     (a \<noteq> NaN \<and> b \<noteq> NaN \<and>
      (a = NInf \<or> b = PInf \<or> (\<not> is_inf a \<and> \<not> is_inf b \<and> fval a \<le> fval b)))"

definition fge :: "pyfloat \<Rightarrow> pyfloat \<Rightarrow> bool" where
  "fge a b = fle b a"

text \<open>
  \<^verbatim>\<open>round(x, 2)\<close> on a float: the exact value is rounded to two decimals (ties to even)
  and the decimal is read back as the nearest double; NaN and the infinities round to
  themselves, and a zero result keeps the sign of \<open>x\<close>.
\<close>

definition fround2 :: "pyfloat \<Rightarrow> pyfloat" where
  "fround2 a =
     (case a of
        Finite q \<Rightarrow>
          (let y = of_int (round_half_even (q * 100)) / 100
           in if y = 0 then signed_zero (q < 0) else fl y)
      | _ \<Rightarrow> a)"

subsection \<open>Decoded JSON\<close>

text \<open>
  What \<^verbatim>\<open>json.loads\<close> returns: \<^verbatim>\<open>None\<close>, \<^verbatim>\<open>bool\<close>, \<^verbatim>\<open>int\<close> (unbounded),
  \<^verbatim>\<open>float\<close>, \<^verbatim>\<open>str\<close>, \<^verbatim>\<open>list\<close> and \<^verbatim>\<open>dict\<close> with string keys. A dict is an
  association list in insertion order; a key is looked up at its first entry (the
  decoder produces each key once).
\<close>

datatype json =
    JNull
  | JBool bool
  | JInt int
  | JFloat pyfloat
  | JStr string
  | JList "json list"
  | JDict "(string \<times> json) list"

type_synonym dict = "(string \<times> json) list"

text \<open>The exceptions the modelled code can raise.\<close>

datatype error =
    TypeError
  | AttributeError
  | OverflowError
  | KeyError
  | NoJSONObject        \<comment> \<open>\<^verbatim>\<open>ValueError("No JSON object found in model output")\<close>\<close>
  | JSONDecodeError     \<comment> \<open>raised by \<^verbatim>\<open>json.loads\<close>; a subclass of \<^verbatim>\<open>ValueError\<close>\<close>
  | DigitLimitError     \<comment> \<open>the \<^verbatim>\<open>ValueError\<close> of \<^verbatim>\<open>json.loads\<close> for an over-long integer literal\<close>
  | RecursionError      \<comment> \<open>raised by \<^verbatim>\<open>json.loads\<close>; a \<^verbatim>\<open>RuntimeError\<close>, not a \<^verbatim>\<open>ValueError\<close>\<close>
  | ConnectionError     \<comment> \<open>raised by \<^verbatim>\<open>requests.post\<close>\<close>
  | HTTPError           \<comment> \<open>raised by \<^verbatim>\<open>raise_for_status\<close>\<close>

definition bind_err :: "error + 'a \<Rightarrow> ('a \<Rightarrow> error + 'b) \<Rightarrow> error + 'b" where
  "bind_err m f = (case m of Inl e \<Rightarrow> Inl e | Inr x \<Rightarrow> f x)"

fun map_err :: "('a \<Rightarrow> error + 'b) \<Rightarrow> 'a list \<Rightarrow> error + 'b list" where
  "map_err f [] = Inr []"
| "map_err f (x # xs) =
     bind_err (f x) (\<lambda>y. bind_err (map_err f xs) (\<lambda>ys. Inr (y # ys)))"

text \<open>\<^verbatim>\<open>d.get(k, default)\<close>.\<close>

definition dict_get :: "dict \<Rightarrow> string \<Rightarrow> json \<Rightarrow> json" where
  "dict_get d k dflt = (case map_of d k of None \<Rightarrow> dflt | Some v \<Rightarrow> v)"

text \<open>
  The float a value stands for as an operand of \<^verbatim>\<open>*\<close> with a float on the other side:
  an \<^verbatim>\<open>int\<close> is converted (correctly rounded; \<^verbatim>\<open>OverflowError\<close> when it is too large),
  a \<^verbatim>\<open>bool\<close> is the int 0 or 1, and \<^verbatim>\<open>None\<close>, strings, lists and dicts raise
  \<^verbatim>\<open>TypeError\<close>.
\<close>

definition float_of_int :: "int \<Rightarrow> error + pyfloat" where
  "float_of_int n =
     (let r = rnd (of_int n)
      in if 2 ^ 1024 \<le> \<bar>r\<bar> then Inl OverflowError else Inr (Finite r))"

fun as_float :: "json \<Rightarrow> error + pyfloat" where
  "as_float (JFloat a) = Inr a"
| "as_float (JInt n) = float_of_int n"
| "as_float (JBool b) = Inr (Finite (if b then 1 else 0))"
| "as_float _ = Inl TypeError"

text \<open>\<^verbatim>\<open>a * v\<close> and \<^verbatim>\<open>v * a\<close> for a float \<open>a\<close> and a decoded value \<open>v\<close>.\<close>

definition float_times :: "pyfloat \<Rightarrow> json \<Rightarrow> error + pyfloat" where
  "float_times a v = bind_err (as_float v) (\<lambda>b. Inr (fmul a b))"

definition times_float :: "json \<Rightarrow> pyfloat \<Rightarrow> error + pyfloat" where
  "times_float v a = bind_err (as_float v) (\<lambda>b. Inr (fmul b a))"

text \<open>
  \<^verbatim>\<open>round(v, 2)\<close>: a float is rounded, an \<^verbatim>\<open>int\<close> is returned as it is, a \<^verbatim>\<open>bool\<close>
  becomes the int 0 or 1, any other value raises \<^verbatim>\<open>TypeError\<close>.
\<close>

fun py_round2 :: "json \<Rightarrow> error + json" where
  "py_round2 (JFloat a) = Inr (JFloat (fround2 a))"
| "py_round2 (JInt n) = Inr (JInt n)"
| "py_round2 (JBool b) = Inr (JInt (if b then 1 else 0))"
| "py_round2 _ = Inl TypeError"

text \<open>
  Iterating a value: a list yields its elements, a string its characters (strings of
  length one), a dict its keys; the other values are not iterable.
\<close>

fun py_iter :: "json \<Rightarrow> error + json list" where
  "py_iter (JList xs) = Inr xs"
| "py_iter (JStr s) = Inr (map (\<lambda>c. JStr [c]) s)"
| "py_iter (JDict kvs) = Inr (map (\<lambda>kv. JStr (fst kv)) kvs)"
| "py_iter _ = Inl TypeError"

fun hashable :: "json \<Rightarrow> bool" where
  "hashable (JList _) = False"
| "hashable (JDict _) = False"
| "hashable _ = True"

text \<open>
  What the interpreter supplies and the model leaves open:
  \<^item> \<open>set_list xs\<close> is \<^verbatim>\<open>list(set(xs))\<close> for hashable elements: the order in which the
    running process iterates the set (for strings it follows the per-process hash seed);
  \<^item> \<open>str_of v\<close> is \<^verbatim>\<open>str(v)\<close> for a value that is not a string;
  \<^item> \<open>json_loads s\<close> is \<^verbatim>\<open>json.loads(s)\<close> on a text that begins with an opening brace:
    the decoded object, or the exception the decoder raises. That is
    \<^verbatim>\<open>JSONDecodeError\<close> for a text it rejects, \<^verbatim>\<open>RecursionError\<close> for a text nested
    deeper than the recursion limit of the interpreter (some thousand brackets),
    whether the text is well formed or not, and a plain \<^verbatim>\<open>ValueError\<close> for an integer
    literal beyond the digit limit.
\<close>

record runtime =
  set_list :: "json list \<Rightarrow> json list"
  str_of :: "json \<Rightarrow> string"
  json_loads :: "string \<Rightarrow> error + dict"

text \<open>\<^verbatim>\<open>list(set(v))\<close>.\<close>

definition list_set :: "runtime \<Rightarrow> json \<Rightarrow> error + json list" where
  "list_set rt v =
     bind_err (py_iter v) (\<lambda>xs.
       if list_all hashable xs then Inr (set_list rt xs) else Inl TypeError)"

text \<open>
  What every interpreter guarantees of \<^verbatim>\<open>list(set(xs))\<close> when the elements are strings:
  each string of \<open>xs\<close> occurs in it, once, and nothing else does. (Strings are equal in
  Python exactly when they are the same text; for numbers, where \<^verbatim>\<open>1 == 1.0 == True\<close>,
  nothing is required here.)
\<close>

fun is_str :: "json \<Rightarrow> bool" where
  "is_str (JStr _) = True"
| "is_str _ = False"

definition set_order_ok :: "(json list \<Rightarrow> json list) \<Rightarrow> bool" where
  "set_order_ok f = (\<forall>xs. list_all is_str xs \<longrightarrow> distinct (f xs) \<and> set (f xs) = set xs)"

text \<open>A value inside an f-string: a string is inserted as it is.\<close>

definition py_format :: "runtime \<Rightarrow> json \<Rightarrow> string" where
  "py_format rt v = (case v of JStr s \<Rightarrow> s | _ \<Rightarrow> str_of rt v)"

section \<open>The merge algorithm (\<^verbatim>\<open>unified_analyzer.py\<close>)\<close>

text \<open>The table of line 46: \<^verbatim>\<open>{"phishing": 1.0, "unsure": 0.5, "legitimate": 0.0}\<close>.\<close>

definition verdict_scores :: "(string \<times> pyfloat) list" where
  "verdict_scores =
     [(''phishing'', float_lit 1), (''unsure'', float_lit (1 / 2)), (''legitimate'', float_lit 0)]"

text \<open>
  \<^verbatim>\<open>verdict_scores.get(v, 0.5)\<close>: the key is hashed first, so a list or a dict raises
  \<^verbatim>\<open>TypeError\<close>; a value that is not a string equals no key.
\<close>

fun scores_get :: "json \<Rightarrow> error + pyfloat" where
  "scores_get (JStr s) =
     Inr (case map_of verdict_scores s of None \<Rightarrow> float_lit (1 / 2) | Some x \<Rightarrow> x)"
| "scores_get (JList _) = Inl TypeError"
| "scores_get (JDict _) = Inl TypeError"
| "scores_get _ = Inr (float_lit (1 / 2))"

text \<open>
  \<^verbatim>\<open>if url_result:\<close> holds when the argument is neither \<^verbatim>\<open>None\<close> nor an empty dict;
  \<open>if_truthy\<close> hands the dict to the branch that reads it.
\<close>

definition if_truthy :: "dict option \<Rightarrow> dict option" where
  "if_truthy url_result =
     (case url_result of None \<Rightarrow> None | Some u \<Rightarrow> if u = [] then None else Some u)"

text \<open>
  Lines 45 to 63 of \<^verbatim>\<open>_merge_results\<close>: the locals \<^verbatim>\<open>combined_score\<close>,
  \<^verbatim>\<open>combined_confidence\<close> and \<^verbatim>\<open>urls_analyzed\<close>. Without a URL result
  \<^verbatim>\<open>combined_confidence\<close> is the text result's own value, whatever its type.
\<close>

definition merge_scores :: "dict \<Rightarrow> dict option \<Rightarrow> error + pyfloat \<times> json \<times> bool" where
  "merge_scores text_result url_result =
     bind_err (scores_get (dict_get text_result ''verdict'' (JStr ''unsure''))) (\<lambda>text_score.
     let text_confidence = dict_get text_result ''confidence'' (JFloat (float_lit (1 / 2))) in
     case if_truthy url_result of
       Some u \<Rightarrow>
         bind_err (scores_get (dict_get u ''verdict'' (JStr ''unsure''))) (\<lambda>url_score.
         let url_confidence = dict_get u ''confidence'' (JFloat (float_lit (1 / 2))) in
         bind_err (float_times (fmul text_score (float_lit (6 / 10))) text_confidence) (\<lambda>a.
         bind_err (float_times (fmul url_score (float_lit (4 / 10))) url_confidence) (\<lambda>b.
         bind_err (times_float text_confidence (float_lit (6 / 10))) (\<lambda>c.
         bind_err (times_float url_confidence (float_lit (4 / 10))) (\<lambda>d.
         Inr (fadd a b, JFloat (fadd c d), True))))))
     | None \<Rightarrow>
         bind_err (float_times text_score text_confidence) (\<lambda>combined_score.
         Inr (combined_score, text_confidence, False)))"

text \<open>Lines 65 to 71: the thresholds.\<close>

definition final_verdict :: "pyfloat \<Rightarrow> string" where
  "final_verdict combined_score =
     (if fge combined_score (float_lit (7 / 10)) then ''phishing''
      else if fle combined_score (float_lit (3 / 10)) then ''legitimate''
      else ''unsure'')"

text \<open>
  Line 78: \<^verbatim>\<open>[d.get("indicators", []) for d in url_result.get("url_details", [])]\<close>.
  An element that is not a dict has no \<^verbatim>\<open>get\<close>.
\<close>

definition url_indicators :: "dict \<Rightarrow> error + json list" where
  "url_indicators u =
     bind_err (py_iter (dict_get u ''url_details'' (JList [])))
       (map_err (\<lambda>d. case d of
                        JDict kvs \<Rightarrow> Inr (dict_get kvs ''indicators'' (JList []))
                      | _ \<Rightarrow> Inl AttributeError))"

text \<open>
  Lines 79 and 80: \<^verbatim>\<open>all_phishing_indicators.extend(indicators_list)\<close> for each list in
  turn. \<^verbatim>\<open>extend\<close> changes the list object in place: the result is the exception
  raised, if any, and the state of the object when the loop ends. Only a list has
  \<^verbatim>\<open>extend\<close>; an argument that is not iterable raises before anything is appended.
\<close>

fun extend_all :: "json \<Rightarrow> json list \<Rightarrow> error option \<times> json" where
  "extend_all obj [] = (None, obj)"
| "extend_all obj (indicators_list # rest) =
     (case obj of
        JList xs \<Rightarrow>
          (case py_iter indicators_list of
             Inl e \<Rightarrow> (Some e, obj)
           | Inr ys \<Rightarrow> extend_all (JList (xs @ ys)) rest)
      | _ \<Rightarrow> (Some AttributeError, obj))"

text \<open>
  \<^verbatim>\<open>all_phishing_indicators = text_result.get("phishing_indicators", [])\<close> is the list
  object stored in \<^verbatim>\<open>text_result\<close> when the key is there, and a new list otherwise. In
  the first case the dict sees every change made to the object.
\<close>

definition store_indicators :: "dict \<Rightarrow> json \<Rightarrow> dict" where
  "store_indicators text_result obj =
     (case map_of text_result ''phishing_indicators'' of
        None \<Rightarrow> text_result
      | Some _ \<Rightarrow> AList.update ''phishing_indicators'' obj text_result)"

text \<open>
  Lines 73 to 80: the exception raised, if any, the value of \<^verbatim>\<open>all_phishing_indicators\<close>
  and the state of \<^verbatim>\<open>text_result\<close> afterwards. The two records are taken to come from
  separate decodings, so no list of \<^verbatim>\<open>url_result\<close> is the object being extended.
\<close>

definition compile_indicators :: "dict \<Rightarrow> dict option \<Rightarrow> error option \<times> json \<times> dict" where
  "compile_indicators text_result url_result =
     (let all_phishing_indicators = dict_get text_result ''phishing_indicators'' (JList []) in
      case if_truthy url_result of
        None \<Rightarrow> (None, all_phishing_indicators, text_result)
      | Some u \<Rightarrow>
          (case url_indicators u of
             Inl e \<Rightarrow> (Some e, all_phishing_indicators, text_result)
           | Inr indicator_lists \<Rightarrow>
               (case extend_all all_phishing_indicators indicator_lists of
                  (err, obj) \<Rightarrow> (err, obj, store_indicators text_result obj))))"

text \<open>Lines 101 to 110: \<^verbatim>\<open>_build_rationale\<close>.\<close>

definition build_rationale :: "runtime \<Rightarrow> string \<Rightarrow> dict \<Rightarrow> dict option \<Rightarrow> string" where
  "build_rationale rt verdict text_result url_result =
     (let text_rationale = dict_get text_result ''overall_rationale'' (JStr '''') in
      case if_truthy url_result of
        Some u \<Rightarrow>
          (let url_rationale = dict_get u ''overall_rationale'' (JStr '''') in
           ''Text analysis: '' @ py_format rt text_rationale @ [CHR 0x0A, CHR 0x0A]
             @ ''URL analysis: '' @ py_format rt url_rationale)
      | None \<Rightarrow> ''Based on text analysis: '' @ py_format rt text_rationale)"

text \<open>The Unified Verdict, the dict built on lines 83 to 97.\<close>

record unified =
  task :: string
  verdict :: string
  confidence :: json
  phishing_indicators :: "json list"
  legitimacy_indicators :: json
  agents_used :: "(string \<times> bool) list"
  text_agent_result :: dict
  url_agent_result :: "dict option"
  overall_rationale :: string
  safety_notes :: json

text \<open>
  \<^verbatim>\<open>_merge_results\<close>. The second component is the state of the \<^verbatim>\<open>text_result\<close> object
  when the call ends, by return or by exception; \<^verbatim>\<open>url_result\<close> is only read. The value
  under \<^verbatim>\<open>"text_agent_result"\<close> is the \<^verbatim>\<open>text_result\<close> object itself, hence its state
  at the return.
\<close>

definition merge_results :: "runtime \<Rightarrow> dict \<Rightarrow> dict option \<Rightarrow> (error + unified) \<times> dict" where
  "merge_results rt text_result url_result =
     (case merge_scores text_result url_result of
        Inl e \<Rightarrow> (Inl e, text_result)
      | Inr (combined_score, combined_confidence, urls_analyzed) \<Rightarrow>
          (case compile_indicators text_result url_result of
             (Some e, all_phishing_indicators, text_result') \<Rightarrow> (Inl e, text_result')
           | (None, all_phishing_indicators, text_result') \<Rightarrow>
               (bind_err (py_round2 combined_confidence) (\<lambda>rounded.
                bind_err (list_set rt all_phishing_indicators) (\<lambda>deduplicated.
                Inr \<lparr> task = ''email_phishing_detection'',
                      verdict = final_verdict combined_score,
                      confidence = rounded,
                      phishing_indicators = deduplicated,
                      legitimacy_indicators =
                        dict_get text_result ''legitimacy_indicators'' (JList []),
                      agents_used = [(''text'', True), (''url'', urls_analyzed)],
                      text_agent_result = text_result',
                      url_agent_result = url_result,
                      overall_rationale =
                        build_rationale rt (final_verdict combined_score) text_result' url_result,
                      safety_notes = dict_get text_result' ''safety_notes'' (JStr '''') \<rparr>)),
                text_result')))"

section \<open>The result extractor and the analyzers (\<^verbatim>\<open>base_agent.py\<close>)\<close>

text \<open>
  \<^verbatim>\<open>raw.find(c)\<close> and \<^verbatim>\<open>raw.rfind(c)\<close> for a single character: the lowest and the
  highest index at which it occurs, or \<open>-1\<close>. A string is its list of characters; the two
  braces are single characters in every encoding Python reads.
\<close>

fun str_find :: "string \<Rightarrow> char \<Rightarrow> int" where
  "str_find [] c = - 1"
| "str_find (x # xs) c =
     (if x = c then 0 else (let i = str_find xs c in if i = - 1 then - 1 else i + 1))"

definition str_rfind :: "string \<Rightarrow> char \<Rightarrow> int" where
  "str_rfind s c =
     (let i = str_find (rev s) c in if i = - 1 then - 1 else int (length s) - 1 - i)"

text \<open>\<^verbatim>\<open>raw[i:j]\<close> for \<open>0 \<le> i\<close> and \<open>0 \<le> j\<close>, the only case the extractor reaches.\<close>

definition slice :: "string \<Rightarrow> int \<Rightarrow> int \<Rightarrow> string" where
  "slice raw i j = take (nat (j - i)) (drop (nat i) raw)"

text \<open>\<^verbatim>\<open>BaseAgent._extract_json\<close>; \<open>stop\<close> is the local \<^verbatim>\<open>end\<close> of the source.\<close>

definition extract_json :: "runtime \<Rightarrow> string \<Rightarrow> error + dict" where
  "extract_json rt raw =
     (let start = str_find raw CHR ''{'';
          stop = str_rfind raw CHR ''}''
      in if start = - 1 \<or> stop = - 1 \<or> stop \<le> start then Inl NoJSONObject
         else json_loads rt (slice raw start (stop + 1)))"

text \<open>
  \<^verbatim>\<open>isinstance(e, ValueError)\<close>: the error of the extractor is a \<^verbatim>\<open>ValueError\<close> and
  \<^verbatim>\<open>json.JSONDecodeError\<close> is a subclass of it. The extractor's own error and the
  decoder's rejection are what the design calls Malformed Output.
\<close>

fun is_ValueError :: "error \<Rightarrow> bool" where
  "is_ValueError NoJSONObject = True"
| "is_ValueError JSONDecodeError = True"
| "is_ValueError DigitLimitError = True"
| "is_ValueError _ = False"

text \<open>
  The reasoning backend. One call of \<^verbatim>\<open>call_llm\<close> posts one request and consumes one
  reply; what the service will answer is not a function of the program, so the world
  holds the replies still to come, in order, and the requests posted so far. A reply is
  a failure of the transport (\<^verbatim>\<open>requests.post\<close> raises), a status that
  \<^verbatim>\<open>raise_for_status\<close> rejects, a body on which \<^verbatim>\<open>resp.json()\<close>,
  \<^verbatim>\<open>data["message"]["content"]\<close> or \<^verbatim>\<open>raw.find\<close> raises the given exception, or a body
  whose \<^verbatim>\<open>message.content\<close> is the given string.
\<close>

datatype reply = Unreachable | BadStatus | BadBody error | Content string

record request =
  endpoint :: string
  model_name :: string
  system_content :: string
  user_content :: string

record world =
  pending :: "reply list"
  requests :: "request list"

text \<open>
  An agent object. \<^verbatim>\<open>get_system_prompt\<close> returns a module constant of some fifty lines
  (\<^verbatim>\<open>TEXT_AGENT_SYSTEM_PROMPT\<close>, \<^verbatim>\<open>URL_AGENT_SYSTEM_PROMPT\<close>); the text is a field here.
\<close>

record agent =
  model :: string
  ollama_url :: string
  agent_name :: string
  system_prompt :: string

text \<open>\<^verbatim>\<open>BaseAgent.call_llm\<close>. With no reply left the service is taken to be unreachable.\<close>

definition call_llm ::
    "runtime \<Rightarrow> agent \<Rightarrow> string \<Rightarrow> string \<Rightarrow> world \<Rightarrow> (error + dict) \<times> world" where
  "call_llm rt self instruction user_message w =
     (let payload = \<lparr> endpoint = ollama_url self @ ''/api/chat'',
                       model_name = model self,
                       system_content = instruction,
                       user_content = user_message \<rparr>;
          w' = \<lparr> pending = tl (pending w), requests = requests w @ [payload] \<rparr>
      in case pending w of
           [] \<Rightarrow> (Inl ConnectionError, w')
         | Unreachable # _ \<Rightarrow> (Inl ConnectionError, w')
         | BadStatus # _ \<Rightarrow> (Inl HTTPError, w')
         | BadBody e # _ \<Rightarrow> (Inl e, w')
         | Content raw_content # _ \<Rightarrow> (extract_json rt raw_content, w'))"

text \<open>
  \<^verbatim>\<open>BaseAgent.analyze\<close>, given the message that \<^verbatim>\<open>self.prepare_input(**kwargs)\<close>
  returned: the result of \<^verbatim>\<open>call_llm\<close> is returned as it is.
\<close>

definition BaseAgent_analyze :: "runtime \<Rightarrow> agent \<Rightarrow> string \<Rightarrow> world \<Rightarrow> (error + dict) \<times> world" where
  "BaseAgent_analyze rt self user_message w =
     call_llm rt self (system_prompt self) user_message w"

section \<open>The two analyzers (\<^verbatim>\<open>text_agent_v2.py\<close>, \<^verbatim>\<open>url_agent_v2.py\<close>)\<close>

text \<open>\<^verbatim>\<open>TextAgent.prepare_input\<close>: \<^verbatim>\<open>f"Subject: {subject}\n\nBody:\n{body}"\<close>.\<close>

definition TextAgent_prepare_input :: "string \<Rightarrow> string \<Rightarrow> string" where
  "TextAgent_prepare_input subject body =
     ''Subject: '' @ subject @ [CHR 0x0A, CHR 0x0A] @ ''Body:'' @ [CHR 0x0A] @ body"

definition TextAgent_analyze ::
    "runtime \<Rightarrow> agent \<Rightarrow> string \<Rightarrow> string \<Rightarrow> world \<Rightarrow> (error + dict) \<times> world" where
  "TextAgent_analyze rt self subject body w =
     BaseAgent_analyze rt self (TextAgent_prepare_input subject body) w"

text \<open>\<^verbatim>\<open>sep.join(xs)\<close>.\<close>

fun join :: "string \<Rightarrow> string list \<Rightarrow> string" where
  "join sep [] = []"
| "join sep [x] = x"
| "join sep (x # y # ys) = x @ sep @ join sep (y # ys)"

text \<open>\<^verbatim>\<open>URLAgent.prepare_input\<close>; the argument is \<^verbatim>\<open>None\<close> or a list of strings.\<close>

definition URLAgent_prepare_input :: "string list option \<Rightarrow> string" where
  "URLAgent_prepare_input urls =
     (let urls = (case urls of None \<Rightarrow> [] | Some l \<Rightarrow> l);
          urls_text = (if urls \<noteq> [] then join [CHR 0x0A] urls else ''(no URLs provided)'')
      in ''URLs to analyze:'' @ [CHR 0x0A] @ urls_text)"

definition URLAgent_analyze ::
    "runtime \<Rightarrow> agent \<Rightarrow> string list option \<Rightarrow> world \<Rightarrow> (error + dict) \<times> world" where
  "URLAgent_analyze rt self urls w =
     BaseAgent_analyze rt self (URLAgent_prepare_input urls) w"

section \<open>The orchestrator (\<^verbatim>\<open>unified_analyzer.py\<close>)\<close>

record analyzer =
  text_agent :: agent
  url_agent :: agent

text \<open>
  \<^verbatim>\<open>UnifiedEmailAnalyzer.analyze_email\<close>. An exception of either agent leaves the
  function at once; the URL agent is called only for a non-empty list.
\<close>

definition analyze_email ::
    "runtime \<Rightarrow> analyzer \<Rightarrow> string \<Rightarrow> string \<Rightarrow> string list option \<Rightarrow> world
       \<Rightarrow> (error + unified) \<times> world" where
  "analyze_email rt self subject body urls w =
     (let urls = (case urls of None \<Rightarrow> [] | Some l \<Rightarrow> l) in
      case TextAgent_analyze rt (text_agent self) subject body w of
        (Inl e, w1) \<Rightarrow> (Inl e, w1)
      | (Inr text_result, w1) \<Rightarrow>
          (if urls \<noteq> [] then
             (case URLAgent_analyze rt (url_agent self) (Some urls) w1 of
                (Inl e, w2) \<Rightarrow> (Inl e, w2)
              | (Inr url_result, w2) \<Rightarrow>
                  (fst (merge_results rt text_result (Some url_result)), w2))
           else (fst (merge_results rt text_result None), w1)))"

section \<open>Sample values\<close>

text \<open>
  Two analyzer results and the replies that carry them, a reply that opens a thousand
  arrays and closes none, a decoder that knows these replies, an interpreter whose sets
  keep the order of first insertion and one whose sets give the reverse order.
\<close>

definition example_text :: dict where
  "example_text =
     [(''verdict'', JStr ''phishing''),
      (''confidence'', JFloat (float_lit (9 / 10))),
      (''phishing_indicators'', JList [JStr ''urgent_threat_or_deadline'']),
      (''overall_rationale'', JStr ''Deadline and password request.'')]"

definition example_url :: dict where
  "example_url =
     [(''verdict'', JStr ''phishing''),
      (''confidence'', JFloat (float_lit (9 / 10))),
      (''url_details'', JList [JDict [(''indicators'', JList [JStr ''http_not_https''])]]),
      (''overall_rationale'', JStr ''Plain HTTP login page.'')]"

definition example_unknown :: dict where
  "example_unknown =
     [(''verdict'', JStr ''malicious''), (''confidence'', JFloat (float_lit 1))]"

definition example_text_json :: string where
  \<open>example_text_json =
     ''{"verdict": "phishing", "confidence": 0.9, "phishing_indicators": ["urgent_threat_or_deadline"], "overall_rationale": "Deadline and password request."}''\<close>

definition example_text_reply :: string where
  "example_text_reply = ''Here is the result: '' @ example_text_json @ '' Stay safe.''"

definition example_url_reply :: string where
  \<open>example_url_reply =
     ''{"verdict": "phishing", "confidence": 0.9, "url_details": [{"indicators": ["http_not_https"]}], "overall_rationale": "Plain HTTP login page."}''\<close>

definition example_unknown_reply :: string where
  \<open>example_unknown_reply = ''{"verdict": "malicious", "confidence": 1.0}''\<close>

definition example_deep_members :: string where
  \<open>example_deep_members = ''"a":'' @ replicate 1000 CHR ''[''\<close>

definition example_deep_json :: string where
  "example_deep_json = CHR ''{'' # example_deep_members @ [CHR ''}'']"

definition example_list_verdict :: dict where
  "example_list_verdict = [(''verdict'', JList [JStr ''phishing'']), (''confidence'', JFloat (float_lit 1))]"

definition example_loads :: "string \<Rightarrow> error + dict" where
  "example_loads s =
     (if s = example_text_json then Inr example_text
      else if s = example_url_reply then Inr example_url
      else if s = example_unknown_reply then Inr example_unknown
      else if s = ''{}'' then Inr []
      else if s = example_deep_json then Inl RecursionError
      else Inl JSONDecodeError)"

definition example_runtime :: runtime where
  "example_runtime =
     \<lparr> set_list = remdups, str_of = (\<lambda>v. ''?''), json_loads = example_loads \<rparr>"

definition example_runtime' :: runtime where
  "example_runtime' =
     \<lparr> set_list = (\<lambda>xs. rev (remdups xs)), str_of = (\<lambda>v. ''?''), json_loads = example_loads \<rparr>"

definition example_analyzer :: analyzer where
  "example_analyzer =
     \<lparr> text_agent = \<lparr> model = ''llama3'', ollama_url = ''http://localhost:11434'',
                       agent_name = ''text'', system_prompt = ''You are the TEXT AGENT'' \<rparr>,
       url_agent = \<lparr> model = ''llama3'', ollama_url = ''http://localhost:11434'',
                      agent_name = ''url'', system_prompt = ''You are the URL AGENT'' \<rparr> \<rparr>"

definition example_world :: "reply list \<Rightarrow> world" where
  "example_world replies = \<lparr> pending = replies, requests = [] \<rparr>"

definition example_subject :: string where
  "example_subject = ''Important: Verify your account immediately''"

definition example_body :: string where
  "example_body = ''Please click the link below to verify your account.''"


text \<open>
  A text result that calls the mail legitimate, and what a merge of \<open>example_text\<close> with
  \<open>example_url\<close> returns and leaves behind in an interpreter that keeps insertion order.
\<close>

definition example_legitimate :: dict where
  "example_legitimate =
     [(''verdict'', JStr ''legitimate''), (''confidence'', JFloat (float_lit (8 / 10)))]"

definition example_text_after :: dict where
  "example_text_after =
     [(''verdict'', JStr ''phishing''),
      (''confidence'', JFloat (float_lit (9 / 10))),
      (''phishing_indicators'',
         JList [JStr ''urgent_threat_or_deadline'', JStr ''http_not_https'']),
      (''overall_rationale'', JStr ''Deadline and password request.'')]"

definition example_unified :: unified where
  "example_unified =
     \<lparr> task = ''email_phishing_detection'',
       verdict = ''phishing'',
       confidence = JFloat (float_lit (9 / 10)),
       phishing_indicators = [JStr ''urgent_threat_or_deadline'', JStr ''http_not_https''],
       legitimacy_indicators = JList [],
       agents_used = [(''text'', True), (''url'', True)],
       text_agent_result = example_text_after,
       url_agent_result = Some example_url,
       overall_rationale =
         ''Text analysis: Deadline and password request.'' @ [CHR 0x0A, CHR 0x0A]
           @ ''URL analysis: Plain HTTP login page.'',
       safety_notes = JStr '''' \<rparr>"

section \<open>Auxiliary facts\<close>

lemma bind_err_simps [simp]:
  "bind_err (Inl e) f = Inl e"
  "bind_err (Inr x) f = f x"
  by (simp_all add: bind_err_def)

lemma if_truthy_simps [simp]:
  "if_truthy None = None"
  "if_truthy (Some []) = None"
  "u \<noteq> [] \<Longrightarrow> if_truthy (Some u) = Some u"
  by (simp_all add: if_truthy_def)

subsection \<open>Float arithmetic on the sample values\<close>

text \<open>
  The roundings that occur below, each computed from the definition. The long arguments
  are exact products and sums of two doubles.
\<close>

lemma rnd_values:
  "rnd 0 = 0"
  "rnd 1 = 1"
  "rnd (1 / 2) = 1 / 2"
  "rnd (1 / 4) = 1 / 4"
  "rnd (7 / 10) = 3152519739159347 / 4503599627370496"
  "rnd (3 / 10) = 5404319552844595 / 18014398509481984"
  "rnd (3 / 5) = 5404319552844595 / 9007199254740992"
  "rnd (2 / 5) = 3602879701896397 / 9007199254740992"
  "rnd (9 / 10) = 8106479329266893 / 9007199254740992"
  "rnd (4 / 5) = 3602879701896397 / 4503599627370496"
  "rnd (21 / 25) = 7566047373982433 / 9007199254740992"
  "rnd (5404319552844595 / 9007199254740992) = 5404319552844595 / 9007199254740992"
  "rnd (3602879701896397 / 9007199254740992) = 3602879701896397 / 9007199254740992"
  "rnd (8106479329266893 / 9007199254740992) = 8106479329266893 / 9007199254740992"
  "rnd (43810004743887607575294107493335 / 81129638414606681695789005144064)
     = 607985949695017 / 1125899906842624"
  "rnd (29206669829258407752355848084521 / 81129638414606681695789005144064)
     = 6485183463413515 / 18014398509481984"
  "rnd (16212958658533787 / 18014398509481984) = 4053239664633447 / 4503599627370496"
  "rnd (19471113219505603967277331424215 / 40564819207303340847894502572032)
     = 1080863910568919 / 2251799813685248"
  "rnd (15132094747964867 / 18014398509481984) = 3783023686991217 / 4503599627370496"
  "rnd (6485183463413515 / 18014398509481984) = 6485183463413515 / 18014398509481984"
  by code_simp+

lemma round_half_even_values:
  "round_half_even (101330991615836175 / 1125899906842624) = 90"
  "round_half_even (94575592174780425 / 1125899906842624) = 84"
  "round_half_even (202661983231672325 / 2251799813685248) = 90"
  "round_half_even 50 = 50"
  "round_half_even 100 = 100"
  by code_simp+

lemmas float_eval =
  fmul_def fadd_def fle_def fge_def fl_def fround2_def float_lit_def is_zero_def
  signed_zero_def signed_inf_def Let_def rnd_values round_half_even_values

lemma float_lit_values:
  "float_lit 0 = Finite 0"
  "float_lit 1 = Finite 1"
  "float_lit (1 / 2) = Finite (1 / 2)"
  "float_lit (7 / 10) = Finite (3152519739159347 / 4503599627370496)"
  "float_lit (3 / 10) = Finite (5404319552844595 / 18014398509481984)"
  "float_lit (3 / 5) = Finite (5404319552844595 / 9007199254740992)"
  "float_lit (2 / 5) = Finite (3602879701896397 / 9007199254740992)"
  "float_lit (9 / 10) = Finite (8106479329266893 / 9007199254740992)"
  "float_lit (4 / 5) = Finite (3602879701896397 / 4503599627370496)"
  "float_lit (21 / 25) = Finite (7566047373982433 / 9007199254740992)"
  by (simp_all add: float_eval)


subsection \<open>The merge, step by step\<close>

lemma scores_get_enum:
  "scores_get (JStr ''phishing'') = Inr (Finite 1)"
  "scores_get (JStr ''unsure'') = Inr (Finite (1 / 2))"
  "scores_get (JStr ''legitimate'') = Inr (Finite 0)"
  by (simp_all add: verdict_scores_def float_lit_values)

lemma py_round2_numeric:
  "as_float v = Inr c \<Longrightarrow> \<exists>j. py_round2 v = Inr j"
  by (cases v) auto

lemma merge_results_returns:
  assumes "merge_scores t u = Inr (cs, cc, ua)"
    and "compile_indicators t u = (None, obj, t')"
    and "py_round2 cc = Inr j"
    and "list_set rt obj = Inr inds"
  shows "merge_results rt t u =
           (Inr \<lparr> task = ''email_phishing_detection'',
                  verdict = final_verdict cs,
                  confidence = j,
                  phishing_indicators = inds,
                  legitimacy_indicators = dict_get t ''legitimacy_indicators'' (JList []),
                  agents_used = [(''text'', True), (''url'', ua)],
                  text_agent_result = t',
                  url_agent_result = u,
                  overall_rationale = build_rationale rt (final_verdict cs) t' u,
                  safety_notes = dict_get t' ''safety_notes'' (JStr '''') \<rparr>, t')"
  using assms by (simp add: merge_results_def)

lemma merge_results_InrD:
  assumes "merge_results rt t u = (Inr r, t')"
  shows "\<exists>cs cc ua obj.
           merge_scores t u = Inr (cs, cc, ua)
         \<and> compile_indicators t u = (None, obj, t')
         \<and> py_round2 cc = Inr (confidence r)
         \<and> list_set rt obj = Inr (phishing_indicators r)
         \<and> verdict r = final_verdict cs
         \<and> agents_used r = [(''text'', True), (''url'', ua)]
         \<and> text_agent_result r = t'
         \<and> url_agent_result r = u"
  using assms
  by (auto simp add: merge_results_def bind_err_def
           split: sum.splits prod.splits option.splits)

lemma compile_indicators_no_url [simp]:
  "if_truthy u = None \<Longrightarrow>
     compile_indicators t u = (None, dict_get t ''phishing_indicators'' (JList []), t)"
  by (simp add: compile_indicators_def)

subsection \<open>The sample merges\<close>

lemma example_text_fields:
  "dict_get example_text ''verdict'' (JStr ''unsure'') = JStr ''phishing''"
  "dict_get example_text ''confidence'' (JFloat (float_lit (1 / 2))) = JFloat (float_lit (9 / 10))"
  "dict_get example_text ''phishing_indicators'' (JList []) = JList [JStr ''urgent_threat_or_deadline'']"
  by (simp_all add: example_text_def dict_get_def)

lemma example_float_facts:
  "fmul (Finite 1) (float_lit (9 / 10)) = float_lit (9 / 10)"
  "final_verdict (float_lit (9 / 10)) = ''phishing''"
  "fround2 (float_lit (9 / 10)) = float_lit (9 / 10)"
  by (simp_all add: final_verdict_def float_eval)

lemma example_scores_url:
  "merge_scores example_text (Some example_url)
     = Inr (Finite (4053239664633447 / 4503599627370496),
            JFloat (Finite (4053239664633447 / 4503599627370496)), True)"
  by (simp add: merge_scores_def example_text_def example_url_def dict_get_def
        verdict_scores_def float_times_def times_float_def float_eval)

lemma example_scores_legitimate:
  "merge_scores example_legitimate (Some example_url)
     = Inr (Finite (6485183463413515 / 18014398509481984),
            JFloat (Finite (3783023686991217 / 4503599627370496)), True)"
  by (simp add: merge_scores_def example_legitimate_def example_url_def dict_get_def
        verdict_scores_def float_times_def times_float_def float_eval)

lemma example_compile_url:
  "compile_indicators example_text (Some example_url)
     = (None, JList [JStr ''urgent_threat_or_deadline'', JStr ''http_not_https''],
        example_text_after)"
  by (simp add: compile_indicators_def example_text_def example_url_def dict_get_def
        url_indicators_def store_indicators_def example_text_after_def)

lemma example_round:
  "py_round2 (JFloat (Finite (4053239664633447 / 4503599627370496)))
     = Inr (JFloat (float_lit (9 / 10)))"
  "py_round2 (JFloat (Finite (3783023686991217 / 4503599627370496)))
     = Inr (JFloat (float_lit (21 / 25)))"
  "final_verdict (Finite (4053239664633447 / 4503599627370496)) = ''phishing''"
  "final_verdict (Finite (6485183463413515 / 18014398509481984)) = ''unsure''"
  by (simp_all add: final_verdict_def float_eval)

lemma example_merge_url:
  "merge_results example_runtime example_text (Some example_url)
     = (Inr example_unified, example_text_after)"
proof -
  have s: "list_set example_runtime
             (JList [JStr ''urgent_threat_or_deadline'', JStr ''http_not_https''])
           = Inr [JStr ''urgent_threat_or_deadline'', JStr ''http_not_https'']"
    by (simp add: list_set_def example_runtime_def)
  have b: "build_rationale example_runtime ''phishing'' example_text_after (Some example_url)
           = ''Text analysis: Deadline and password request.'' @ [CHR 0x0A, CHR 0x0A]
               @ ''URL analysis: Plain HTTP login page.''"
    by (simp add: build_rationale_def example_text_after_def example_url_def dict_get_def
          py_format_def)
  have n: "dict_get example_text ''legitimacy_indicators'' (JList []) = JList []"
          "dict_get example_text_after ''safety_notes'' (JStr '''') = JStr ''''"
    by (simp_all add: example_text_def example_text_after_def dict_get_def)
  show ?thesis
    using merge_results_returns [OF example_scores_url example_compile_url example_round(1) s]
    by (simp add: example_round(3) b n example_unified_def)
qed

section \<open>The claims\<close>

text \<open>
  Claim C5. When the text result is merged with no URL result (\<^verbatim>\<open>url_result\<close> is
  \<^verbatim>\<open>None\<close>), \<^verbatim>\<open>combined_confidence\<close> is the text result's confidence itself,
  \<^verbatim>\<open>combined_score\<close> is the float product \<^verbatim>\<open>text_score * text_confidence\<close> with nothing
  rounded to decimals, and the Unified Verdict says that the URL analyzer was not used.
  The merge returns as soon as the verdict can be hashed, the confidence is a number
  and the indicators can be made a set; the text record is left as it was.
\<close>

theorem text_only_merge:
  assumes "scores_get (dict_get t ''verdict'' (JStr ''unsure'')) = Inr text_score"
    and "as_float (dict_get t ''confidence'' (JFloat (float_lit (1 / 2)))) = Inr c"
    and "list_set rt (dict_get t ''phishing_indicators'' (JList [])) = Inr inds"
  shows "merge_scores t None =
           Inr (fmul text_score c, dict_get t ''confidence'' (JFloat (float_lit (1 / 2))), False)
       \<and> (\<exists>r. merge_results rt t None = (Inr r, t)
              \<and> verdict r = final_verdict (fmul text_score c)
              \<and> Inr (confidence r) = py_round2 (dict_get t ''confidence'' (JFloat (float_lit (1 / 2))))
              \<and> agents_used r = [(''text'', True), (''url'', False)]
              \<and> url_agent_result r = None)"
proof -
  let ?tc = "dict_get t ''confidence'' (JFloat (float_lit (1 / 2)))"
  have s: "merge_scores t None = Inr (fmul text_score c, ?tc, False)"
    using assms(1,2) by (simp add: merge_scores_def float_times_def)
  obtain j where j: "py_round2 ?tc = Inr j"
    using py_round2_numeric [OF assms(2)] by blast
  show ?thesis
    using s j merge_results_returns [OF s _ j assms(3), of t] by simp
qed


theorem text_only_merge_witness:
  "scores_get (dict_get example_text ''verdict'' (JStr ''unsure'')) = Inr (Finite 1)
   \<and> as_float (dict_get example_text ''confidence'' (JFloat (float_lit (1 / 2))))
       = Inr (float_lit (9 / 10))
   \<and> list_set example_runtime (dict_get example_text ''phishing_indicators'' (JList []))
       = Inr [JStr ''urgent_threat_or_deadline'']
   \<and> merge_scores example_text None
       = Inr (float_lit (9 / 10), JFloat (float_lit (9 / 10)), False)
   \<and> (\<exists>r. merge_results example_runtime example_text None = (Inr r, example_text)
          \<and> verdict r = ''phishing''
          \<and> confidence r = JFloat (float_lit (9 / 10))
          \<and> agents_used r = [(''text'', True), (''url'', False)])"
proof -
  have h1: "scores_get (dict_get example_text ''verdict'' (JStr ''unsure'')) = Inr (Finite 1)"
    by (simp only: example_text_fields scores_get_enum)
  have h2: "as_float (dict_get example_text ''confidence'' (JFloat (float_lit (1 / 2))))
              = Inr (float_lit (9 / 10))"
    by (simp add: example_text_fields)
  have h3: "list_set example_runtime (dict_get example_text ''phishing_indicators'' (JList []))
              = Inr [JStr ''urgent_threat_or_deadline'']"
    by (simp add: example_text_fields list_set_def example_runtime_def)
  from text_only_merge [OF h1 h2 h3] h1 h2 h3 show ?thesis
    by (auto simp add: example_text_fields example_float_facts)
qed



subsection \<open>The weighted merge\<close>









text \<open>
  Claim C2 fails on the code. \<^verbatim>\<open>all_phishing_indicators\<close> is the list stored in
  \<^verbatim>\<open>text_result\<close>, so \<^verbatim>\<open>extend\<close> appends the URL indicators to the caller's record:
  after the merge of the two sample results the text record holds two indicators where
  it held one, and \<^verbatim>\<open>text_agent_result\<close> shows the extended record, not the result
  the text analyzer returned.
\<close>

theorem merge_extends_text_result:
  "merge_results example_runtime example_text (Some example_url)
     = (Inr example_unified, example_text_after)
   \<and> example_text_after \<noteq> example_text
   \<and> text_agent_result example_unified \<noteq> example_text
   \<and> dict_get example_text ''phishing_indicators'' (JList [])
       = JList [JStr ''urgent_threat_or_deadline'']
   \<and> dict_get (text_agent_result example_unified) ''phishing_indicators'' (JList [])
       = JList [JStr ''urgent_threat_or_deadline'', JStr ''http_not_https'']"
  using example_merge_url
  by (simp add: example_unified_def example_text_after_def example_text_def dict_get_def)

subsection \<open>What the merge depends on\<close>

lemma py_format_cong:
  "str_of rt1 = str_of rt2 \<Longrightarrow> py_format rt1 v = py_format rt2 v"
  by (cases v) (simp_all add: py_format_def)

lemma build_rationale_cong:
  "str_of rt1 = str_of rt2 \<Longrightarrow> build_rationale rt1 v t u = build_rationale rt2 v t u"
  by (simp add: build_rationale_def Let_def py_format_cong [of rt1 rt2] split: option.split)

lemma list_set_iter:
  "list_set rt obj =
     (case py_iter obj of
        Inl e \<Rightarrow> Inl e
      | Inr xs \<Rightarrow> if list_all hashable xs then Inr (set_list rt xs) else Inl TypeError)"
  by (simp add: list_set_def bind_err_def)

lemma set_order_okD:
  assumes "set_order_ok f" and "list_all is_str xs"
  shows "distinct (f xs)" and "set (f xs) = set xs"
  using assms by (simp_all add: set_order_ok_def)

lemma set_order_ok_length:
  assumes "set_order_ok f" and "set_order_ok g" and "list_all is_str xs"
  shows "length (f xs) = length (g xs)"
proof -
  have "length (f xs) = card (set xs)"
    using set_order_okD [OF assms(1,3)] by (metis distinct_card)
  moreover have "length (g xs) = card (set xs)"
    using set_order_okD [OF assms(2,3)] by (metis distinct_card)
  ultimately show ?thesis by simp
qed

lemma example_merge_url':
  "merge_results example_runtime' example_text (Some example_url)
     = (Inr (example_unified\<lparr>phishing_indicators :=
               [JStr ''http_not_https'', JStr ''urgent_threat_or_deadline'']\<rparr>),
        example_text_after)"
proof -
  have s: "list_set example_runtime'
             (JList [JStr ''urgent_threat_or_deadline'', JStr ''http_not_https''])
           = Inr [JStr ''http_not_https'', JStr ''urgent_threat_or_deadline'']"
    by (simp add: list_set_def example_runtime'_def)
  have b: "build_rationale example_runtime' ''phishing'' example_text_after (Some example_url)
           = ''Text analysis: Deadline and password request.'' @ [CHR 0x0A, CHR 0x0A]
               @ ''URL analysis: Plain HTTP login page.''"
    by (simp add: build_rationale_def example_text_after_def example_url_def dict_get_def
          py_format_def)
  have n: "dict_get example_text ''legitimacy_indicators'' (JList []) = JList []"
          "dict_get example_text_after ''safety_notes'' (JStr '''') = JStr ''''"
    by (simp_all add: example_text_def example_text_after_def dict_get_def)
  show ?thesis
    using merge_results_returns [OF example_scores_url example_compile_url example_round(1) s]
    by (simp add: example_round(3) b n example_unified_def)
qed

lemma example_merge_again:
  "snd (merge_results example_runtime example_text_after (Some example_url))
     = AList.update ''phishing_indicators''
         (JList [JStr ''urgent_threat_or_deadline'', JStr ''http_not_https'',
                 JStr ''http_not_https'']) example_text_after"
proof -
  have s: "merge_scores example_text_after (Some example_url)
     = Inr (Finite (4053239664633447 / 4503599627370496),
            JFloat (Finite (4053239664633447 / 4503599627370496)), True)"
    by (simp add: merge_scores_def example_text_after_def example_url_def dict_get_def
        verdict_scores_def float_times_def times_float_def float_eval)
  have c: "compile_indicators example_text_after (Some example_url)
     = (None, JList [JStr ''urgent_threat_or_deadline'', JStr ''http_not_https'',
                     JStr ''http_not_https''],
        AList.update ''phishing_indicators''
         (JList [JStr ''urgent_threat_or_deadline'', JStr ''http_not_https'',
                 JStr ''http_not_https'']) example_text_after)"
    by (simp add: compile_indicators_def example_text_after_def example_url_def dict_get_def
        url_indicators_def store_indicators_def)
  have l: "list_set example_runtime (JList [JStr ''urgent_threat_or_deadline'', JStr ''http_not_https'',
                     JStr ''http_not_https''])
           = Inr [JStr ''urgent_threat_or_deadline'', JStr ''http_not_https'']"
    by (simp add: list_set_def example_runtime_def)
  show ?thesis
    by (simp add: merge_results_returns [OF s c example_round(1) l])
qed

text \<open>
  Claim C10, whose statement fails in two ways. The order of \<^verbatim>\<open>list(set(...))\<close> is the
  iteration order of a set of strings, which follows the hash seed of the interpreter
  process: for the same two sample results one interpreter returns the indicators in
  one order and another interpreter in the other, so the Unified Verdicts differ. And a
  second merge of the same two record objects does not see identical inputs, because the
  first merge has extended the text record (the defect shown for claim C2): its Unified
  Verdict differs from the first one.
\<close>

theorem merge_determinism_counterexample:
  "map_sum id phishing_indicators
       (fst (merge_results example_runtime example_text (Some example_url)))
     = Inr [JStr ''urgent_threat_or_deadline'', JStr ''http_not_https'']
   \<and> map_sum id phishing_indicators
       (fst (merge_results example_runtime' example_text (Some example_url)))
     = Inr [JStr ''http_not_https'', JStr ''urgent_threat_or_deadline'']
   \<and> fst (merge_results example_runtime example_text (Some example_url))
     \<noteq> fst (merge_results example_runtime' example_text (Some example_url))
   \<and> snd (merge_results example_runtime example_text (Some example_url)) = example_text_after
   \<and> fst (merge_results example_runtime example_text_after (Some example_url))
     \<noteq> fst (merge_results example_runtime example_text (Some example_url))"
proof -
  have "fst (merge_results example_runtime example_text_after (Some example_url))
     \<noteq> fst (merge_results example_runtime example_text (Some example_url))"
  proof
    assume eq: "fst (merge_results example_runtime example_text_after (Some example_url))
      = fst (merge_results example_runtime example_text (Some example_url))"
    then have "merge_results example_runtime example_text_after (Some example_url)
      = (Inr example_unified, snd (merge_results example_runtime example_text_after (Some example_url)))"
      by (simp add: example_merge_url prod_eq_iff)
    from merge_results_InrD [OF this] example_merge_again
    show False
      by (simp add: example_unified_def example_text_after_def)
  qed
  then show ?thesis
    by (simp add: example_merge_url example_merge_url' example_unified_def)
qed

text \<open>
  Claim C10 as amended. In the merge as modelled, the interpreter enters only through
  the order of \<^verbatim>\<open>list(set(...))\<close> and through \<^verbatim>\<open>str\<close>. Two interpreters that agree on
  \<^verbatim>\<open>str\<close> leave the text record in the same state and either both raise the same
  exception or both return; the two Unified Verdicts then agree in every field but
  \<^verbatim>\<open>phishing_indicators\<close>, and the two indicator lists are the two interpreters'
  \<^verbatim>\<open>list(set(...))\<close> of the one list of compiled indicators. When these indicators are
  strings, and each interpreter's \<^verbatim>\<open>list(set(...))\<close> enumerates the strings of its
  argument once each, both lists are free of duplicates, hold exactly the compiled
  indicators and have the same length: they differ in order at most. With the same set
  order the whole result is the same.
\<close>

theorem merge_depends_on_set_order_only:
  assumes "str_of rt1 = str_of rt2"
  shows "snd (merge_results rt1 t u) = snd (merge_results rt2 t u)
       \<and> (case (fst (merge_results rt1 t u), fst (merge_results rt2 t u)) of
            (Inl e1, Inl e2) \<Rightarrow> e1 = e2
          | (Inr r1, Inr r2) \<Rightarrow>
              r1\<lparr>phishing_indicators := []\<rparr> = r2\<lparr>phishing_indicators := []\<rparr>
              \<and> (\<exists>obj xs. compile_indicators t u = (None, obj, snd (merge_results rt1 t u))
                     \<and> py_iter obj = Inr xs
                     \<and> phishing_indicators r1 = set_list rt1 xs
                     \<and> phishing_indicators r2 = set_list rt2 xs
                     \<and> (list_all is_str xs \<and> set_order_ok (set_list rt1)
                          \<and> set_order_ok (set_list rt2)
                        \<longrightarrow> distinct (phishing_indicators r1)
                          \<and> distinct (phishing_indicators r2)
                          \<and> set (phishing_indicators r1) = set xs
                          \<and> set (phishing_indicators r2) = set xs
                          \<and> length (phishing_indicators r1) = length (phishing_indicators r2)))
          | _ \<Rightarrow> False)
       \<and> (set_list rt1 = set_list rt2 \<longrightarrow> merge_results rt1 t u = merge_results rt2 t u)"
proof (cases "merge_scores t u")
  case (Inl e)
  then show ?thesis by (simp add: merge_results_def)
next
  case (Inr triple)
  obtain cs cc ua where triple: "triple = (cs, cc, ua)" by (cases triple) auto
  obtain err obj t' where c: "compile_indicators t u = (err, obj, t')"
    by (cases "compile_indicators t u") auto
  show ?thesis
  proof (cases err)
    case (Some e)
    with Inr triple c show ?thesis by (simp add: merge_results_def)
  next
    case None
    note b = build_rationale_cong [OF assms]
    show ?thesis
    proof (cases "py_round2 cc")
      case (Inl e)
      with Inr triple c None show ?thesis by (simp add: merge_results_def)
    next
      case (Inr j)
      show ?thesis
      proof (cases "py_iter obj")
        case (Inl e)
        then have "\<And>rt. list_set rt obj = Inl e" by (simp add: list_set_iter)
        with \<open>merge_scores t u = Inr triple\<close> triple c None Inr show ?thesis
          by (simp add: merge_results_def)
      next
        case (Inr xs)
        note xs = this
        show ?thesis
        proof (cases "list_all hashable xs")
          case False
          with xs have "\<And>rt. list_set rt obj = Inl TypeError" by (simp add: list_set_iter)
          with \<open>merge_scores t u = Inr triple\<close> triple c None \<open>py_round2 cc = Inr j\<close>
          show ?thesis
            by (simp add: merge_results_def)
        next
          case True
          with xs have l: "\<And>rt. list_set rt obj = Inr (set_list rt xs)"
            by (simp add: list_set_iter)
          have k: "list_all is_str xs \<and> set_order_ok (set_list rt1)
                          \<and> set_order_ok (set_list rt2)
                        \<longrightarrow> distinct (set_list rt1 xs)
                          \<and> distinct (set_list rt2 xs)
                          \<and> set (set_list rt1 xs) = set xs
                          \<and> set (set_list rt2 xs) = set xs
                          \<and> length (set_list rt1 xs) = length (set_list rt2 xs)"
            using set_order_okD set_order_ok_length by blast
          have m: "\<And>rt. merge_results rt t u =
             (Inr \<lparr> task = ''email_phishing_detection'',
                  verdict = final_verdict cs,
                  confidence = j,
                  phishing_indicators = set_list rt xs,
                  legitimacy_indicators = dict_get t ''legitimacy_indicators'' (JList []),
                  agents_used = [(''text'', True), (''url'', ua)],
                  text_agent_result = t',
                  url_agent_result = u,
                  overall_rationale = build_rationale rt (final_verdict cs) t' u,
                  safety_notes = dict_get t' ''safety_notes'' (JStr '''') \<rparr>, t')"
            using \<open>merge_scores t u = Inr triple\<close> [unfolded triple] c [unfolded None]
              \<open>py_round2 cc = Inr j\<close> l
            by (rule merge_results_returns)
          have e: "\<exists>obj' xs'. compile_indicators t u = (None, obj', t')
                     \<and> py_iter obj' = Inr xs'
                     \<and> set_list rt1 xs = set_list rt1 xs'
                     \<and> set_list rt2 xs = set_list rt2 xs'
                     \<and> (list_all is_str xs' \<and> set_order_ok (set_list rt1)
                          \<and> set_order_ok (set_list rt2)
                        \<longrightarrow> distinct (set_list rt1 xs)
                          \<and> distinct (set_list rt2 xs)
                          \<and> set (set_list rt1 xs) = set xs'
                          \<and> set (set_list rt2 xs) = set xs'
                          \<and> length (set_list rt1 xs) = length (set_list rt2 xs))"
            using c [unfolded None] xs k by blast
          show ?thesis
            using e by (simp add: m b)
        qed
      qed
    qed
  qed
qed

theorem merge_depends_on_set_order_only_witness:
  "str_of example_runtime = str_of example_runtime'
   \<and> set_order_ok (set_list example_runtime)
   \<and> set_order_ok (set_list example_runtime')
   \<and> compile_indicators example_text (Some example_url)
       = (None, JList [JStr ''urgent_threat_or_deadline'', JStr ''http_not_https''],
          example_text_after)
   \<and> list_all is_str [JStr ''urgent_threat_or_deadline'', JStr ''http_not_https'']
   \<and> snd (merge_results example_runtime example_text (Some example_url))
       = snd (merge_results example_runtime' example_text (Some example_url))
   \<and> fst (merge_results example_runtime example_text (Some example_url)) = Inr example_unified
   \<and> fst (merge_results example_runtime' example_text (Some example_url))
       = Inr (example_unified\<lparr>phishing_indicators :=
               [JStr ''http_not_https'', JStr ''urgent_threat_or_deadline'']\<rparr>)
   \<and> distinct (phishing_indicators example_unified)
   \<and> set (phishing_indicators example_unified)
       = set [JStr ''urgent_threat_or_deadline'', JStr ''http_not_https'']
   \<and> set [JStr ''http_not_https'', JStr ''urgent_threat_or_deadline'']
       = set [JStr ''urgent_threat_or_deadline'', JStr ''http_not_https'']"
proof -
  have h: "str_of example_runtime = str_of example_runtime'"
    by (simp add: example_runtime_def example_runtime'_def)
  have o1: "set_order_ok (set_list example_runtime)"
    by (simp add: example_runtime_def set_order_ok_def)
  have o2: "set_order_ok (set_list example_runtime')"
    by (simp add: example_runtime'_def set_order_ok_def)
  have s: "list_all is_str [JStr ''urgent_threat_or_deadline'', JStr ''http_not_https'']"
    by simp
  have f1: "fst (merge_results example_runtime example_text (Some example_url))
              = Inr example_unified"
    by (simp add: example_merge_url)
  have f2: "fst (merge_results example_runtime' example_text (Some example_url))
       = Inr (example_unified\<lparr>phishing_indicators :=
               [JStr ''http_not_https'', JStr ''urgent_threat_or_deadline'']\<rparr>)"
    by (simp add: example_merge_url')
  have a: "snd (merge_results example_runtime example_text (Some example_url))
             = example_text_after"
    by (simp add: example_merge_url)
  note inst = merge_depends_on_set_order_only [OF h, of example_text "Some example_url"]
  from inst have c1: "snd (merge_results example_runtime example_text (Some example_url))
       = snd (merge_results example_runtime' example_text (Some example_url))"
    by blast
  from inst
  have "\<exists>obj xs. compile_indicators example_text (Some example_url)
                     = (None, obj, example_text_after)
           \<and> py_iter obj = Inr xs
           \<and> (list_all is_str xs \<and> set_order_ok (set_list example_runtime)
                \<and> set_order_ok (set_list example_runtime')
              \<longrightarrow> distinct (phishing_indicators example_unified)
                \<and> set (phishing_indicators example_unified) = set xs
                \<and> set [JStr ''http_not_https'', JStr ''urgent_threat_or_deadline''] = set xs)"
    unfolding f1 f2 a by (simp only: prod.case sum.case) (elim conjE exE, auto)
  then have c2: "distinct (phishing_indicators example_unified)
       \<and> set (phishing_indicators example_unified)
           = set [JStr ''urgent_threat_or_deadline'', JStr ''http_not_https'']
       \<and> set [JStr ''http_not_https'', JStr ''urgent_threat_or_deadline'']
           = set [JStr ''urgent_threat_or_deadline'', JStr ''http_not_https'']"
    using o1 o2 s by (auto simp add: example_compile_url)
  from h o1 o2 example_compile_url s c1 f1 f2 c2
  show ?thesis
    by (intro conjI) blast+
qed

subsection \<open>The result extractor\<close>

lemma str_find_notin: "c \<notin> set s \<Longrightarrow> str_find s c = - 1"
  by (induction s) auto

lemma str_find_in: "c \<in> set s \<Longrightarrow> 0 \<le> str_find s c \<and> nat (str_find s c) < length s \<and> s ! nat (str_find s c) = c"
  by (induction s) (auto simp add: Let_def nat_add_distrib)

lemma str_find_first: "c \<notin> set p \<Longrightarrow> str_find (p @ c # r) c = int (length p)"
  by (induction p) (auto simp add: Let_def)

lemma str_rfind_notin: "c \<notin> set s \<Longrightarrow> str_rfind s c = - 1"
  by (simp add: str_rfind_def str_find_notin)

lemma str_rfind_last: "c \<notin> set s \<Longrightarrow> str_rfind (r @ c # s) c = int (length r)"
  using str_find_first [of c "rev s" "rev r"] by (simp add: str_rfind_def Let_def)

lemma str_rfind_in:
  assumes "c \<in> set s"
  shows "0 \<le> str_rfind s c \<and> nat (str_rfind s c) < length s \<and> s ! nat (str_rfind s c) = c"
proof -
  from assms obtain r t where s: "s = r @ c # t" and "c \<notin> set t"
    by (meson split_list_last)
  then show ?thesis by (simp add: str_rfind_last nth_append)
qed

lemma slice_middle:
  "slice (p @ m @ s) (int (length p)) (int (length p) + int (length m)) = m"
  by (simp add: slice_def)

lemma extract_json_delimited:
  assumes "CHR ''{'' \<notin> set p" and "CHR ''}'' \<notin> set s"
  shows "extract_json rt (p @ CHR ''{'' # m @ CHR ''}'' # s) =
           json_loads rt (CHR ''{'' # m @ [CHR ''}''])"
proof -
  let ?raw = "p @ CHR ''{'' # m @ CHR ''}'' # s"
  have start: "str_find ?raw CHR ''{'' = int (length p)"
    using assms(1) by (rule str_find_first)
  have "str_rfind ((p @ CHR ''{'' # m) @ CHR ''}'' # s) CHR ''}'' = int (length (p @ CHR ''{'' # m))"
    using assms(2) by (rule str_rfind_last)
  then have stop: "str_rfind ?raw CHR ''}'' = int (length p) + int (length m) + 1"
    by simp
  have "slice (p @ (CHR ''{'' # m @ [CHR ''}'']) @ s) (int (length p))
          (int (length p) + int (length (CHR ''{'' # m @ [CHR ''}'']))) = CHR ''{'' # m @ [CHR ''}'']"
    by (rule slice_middle)
  then have sl: "slice ?raw (int (length p)) (int (length p) + int (length m) + 1 + 1)
                   = CHR ''{'' # m @ [CHR ''}'']"
    by (simp add: add.commute add.left_commute)
  have "extract_json rt ?raw =
          json_loads rt (slice ?raw (int (length p)) (int (length p) + int (length m) + 1 + 1))"
    unfolding extract_json_def start stop Let_def by simp
  then show ?thesis
    by (simp only: sl)
qed

lemma example_deep_differs:
  "example_deep_json \<noteq> example_text_json"
  "example_deep_json \<noteq> example_url_reply"
  "example_deep_json \<noteq> example_unknown_reply"
  "example_deep_json \<noteq> ''{}''"
  "''{not json}'' \<noteq> example_deep_json"
proof -
  have t: "take 3 example_deep_json = [CHR ''{'', CHR 0x22, CHR ''a'']"
    by (simp add: example_deep_json_def example_deep_members_def)
  have "take 3 example_text_json \<noteq> take 3 example_deep_json"
       "take 3 example_url_reply \<noteq> take 3 example_deep_json"
       "take 3 example_unknown_reply \<noteq> take 3 example_deep_json"
       "take 3 ''{}'' \<noteq> take 3 example_deep_json"
       "take 3 ''{not json}'' \<noteq> take 3 example_deep_json"
    unfolding t
    by (simp_all add: example_text_json_def example_url_reply_def example_unknown_reply_def)
  then show "example_deep_json \<noteq> example_text_json"
    "example_deep_json \<noteq> example_url_reply"
    "example_deep_json \<noteq> example_unknown_reply"
    "example_deep_json \<noteq> ''{}''"
    "''{not json}'' \<noteq> example_deep_json"
    by metis+
qed

lemma example_deep_loads:
  "json_loads example_runtime example_deep_json = Inl RecursionError"
  by (simp add: example_runtime_def example_loads_def example_deep_differs)

lemma example_deep_extract:
  "extract_json example_runtime (prefix @ example_deep_json) = Inl RecursionError"
  if "CHR ''{'' \<notin> set prefix"
  using extract_json_delimited [of prefix "[]" example_runtime example_deep_members] that
  by (simp add: example_deep_loads example_deep_json_def [symmetric])

text \<open>
  Claim C7, whose second half fails. The reply that opens a thousand arrays inside an
  object and closes none has its braces in place and is not valid JSON, but the decoder
  does not get as far as rejecting it: it runs into the recursion limit and raises
  \<^verbatim>\<open>RecursionError\<close>, which the extractor does not catch and which is no
  \<^verbatim>\<open>ValueError\<close>.
\<close>

theorem deep_nesting_counterexample:
  "extract_json example_runtime example_deep_json = Inl RecursionError
   \<and> \<not> is_ValueError RecursionError
   \<and> hd example_deep_json = CHR ''{''
   \<and> last example_deep_json = CHR ''}''
   \<and> length example_deep_json = 1006"
  using example_deep_extract [of "[]"]
  by (simp add: example_deep_json_def example_deep_members_def)

text \<open>
  Claim C7 as amended. A text with no opening brace, with no closing brace, or in which
  every closing brace stands before every opening brace (the last \<^verbatim>\<open>}\<close> is then at or
  before the first \<^verbatim>\<open>{\<close>; the two cannot share a position) makes the extractor raise its
  \<^verbatim>\<open>ValueError\<close> for a missing object and nothing else. When the text from the first
  opening brace to the last closing brace is there, the extractor returns or raises
  exactly what the decoder returns or raises for that text: the \<^verbatim>\<open>JSONDecodeError\<close>
  of a rejected text comes out, which is a \<^verbatim>\<open>ValueError\<close> too, and so does the
  \<^verbatim>\<open>RecursionError\<close> of a text nested too deeply, which is not.
\<close>

theorem extract_json_malformed:
  "(CHR ''{'' \<notin> set raw \<longrightarrow> extract_json rt raw = Inl NoJSONObject)
   \<and> (CHR ''}'' \<notin> set raw \<longrightarrow> extract_json rt raw = Inl NoJSONObject)
   \<and> ((\<forall>i j. i < length raw \<and> j < length raw \<and> raw ! i = CHR ''{'' \<and> raw ! j = CHR ''}''
          \<longrightarrow> j < i) \<longrightarrow> extract_json rt raw = Inl NoJSONObject)
   \<and> (raw = p @ CHR ''{'' # m @ CHR ''}'' # s \<and> CHR ''{'' \<notin> set p \<and> CHR ''}'' \<notin> set s
        \<longrightarrow> extract_json rt raw = json_loads rt (CHR ''{'' # m @ [CHR ''}'']))
   \<and> (raw = p @ CHR ''{'' # m @ CHR ''}'' # s \<and> CHR ''{'' \<notin> set p \<and> CHR ''}'' \<notin> set s
        \<and> json_loads rt (CHR ''{'' # m @ [CHR ''}'']) = Inl JSONDecodeError
        \<longrightarrow> extract_json rt raw = Inl JSONDecodeError)
   \<and> (raw = p @ CHR ''{'' # m @ CHR ''}'' # s \<and> CHR ''{'' \<notin> set p \<and> CHR ''}'' \<notin> set s
        \<and> json_loads rt (CHR ''{'' # m @ [CHR ''}'']) = Inl RecursionError
        \<longrightarrow> extract_json rt raw = Inl RecursionError)
   \<and> is_ValueError NoJSONObject \<and> is_ValueError JSONDecodeError
   \<and> \<not> is_ValueError RecursionError"
proof -
  have a: "CHR ''{'' \<notin> set raw \<longrightarrow> extract_json rt raw = Inl NoJSONObject"
    by (simp add: extract_json_def str_find_notin)
  have b: "CHR ''}'' \<notin> set raw \<longrightarrow> extract_json rt raw = Inl NoJSONObject"
    by (simp add: extract_json_def str_rfind_notin)
  have c: "(\<forall>i j. i < length raw \<and> j < length raw \<and> raw ! i = CHR ''{'' \<and> raw ! j = CHR ''}''
          \<longrightarrow> j < i) \<longrightarrow> extract_json rt raw = Inl NoJSONObject"
  proof
    assume order: "\<forall>i j. i < length raw \<and> j < length raw \<and> raw ! i = CHR ''{'' \<and> raw ! j = CHR ''}''
          \<longrightarrow> j < i"
    show "extract_json rt raw = Inl NoJSONObject"
    proof (cases "CHR ''{'' \<in> set raw \<and> CHR ''}'' \<in> set raw")
      case True
      from True str_find_in [of "CHR ''{''" raw] str_rfind_in [of "CHR ''}''" raw] order
      have "nat (str_rfind raw CHR ''}'') < nat (str_find raw CHR ''{'')"
        by blast
      then have "str_rfind raw CHR ''}'' \<le> str_find raw CHR ''{''"
        by linarith
      then show ?thesis by (simp add: extract_json_def)
    next
      case False
      with a b show ?thesis by blast
    qed
  qed
  have d: "raw = p @ CHR ''{'' # m @ CHR ''}'' # s \<and> CHR ''{'' \<notin> set p \<and> CHR ''}'' \<notin> set s
        \<longrightarrow> extract_json rt raw = json_loads rt (CHR ''{'' # m @ [CHR ''}''])"
    by (auto simp add: extract_json_delimited)
  have e: "raw = p @ CHR ''{'' # m @ CHR ''}'' # s \<and> CHR ''{'' \<notin> set p \<and> CHR ''}'' \<notin> set s
        \<and> json_loads rt (CHR ''{'' # m @ [CHR ''}'']) = Inl JSONDecodeError
        \<longrightarrow> extract_json rt raw = Inl JSONDecodeError"
    by (auto simp add: extract_json_delimited)
  have f: "raw = p @ CHR ''{'' # m @ CHR ''}'' # s \<and> CHR ''{'' \<notin> set p \<and> CHR ''}'' \<notin> set s
        \<and> json_loads rt (CHR ''{'' # m @ [CHR ''}'']) = Inl RecursionError
        \<longrightarrow> extract_json rt raw = Inl RecursionError"
    by (auto simp add: extract_json_delimited)
  have g: "is_ValueError NoJSONObject" "is_ValueError JSONDecodeError"
    "\<not> is_ValueError RecursionError"
    by simp_all
  from a b c d e f g show ?thesis
    by (intro conjI)
qed

theorem extract_json_malformed_witness:
  "CHR ''{'' \<notin> set ''no object here''
   \<and> extract_json example_runtime ''no object here'' = Inl NoJSONObject
   \<and> CHR ''}'' \<notin> set ''{ is never closed''
   \<and> extract_json example_runtime ''{ is never closed'' = Inl NoJSONObject
   \<and> extract_json example_runtime ''}{'' = Inl NoJSONObject
   \<and> json_loads example_runtime ''{not json}'' = Inl JSONDecodeError
   \<and> extract_json example_runtime ''see {not json}.'' = Inl JSONDecodeError
   \<and> json_loads example_runtime example_deep_json = Inl RecursionError
   \<and> extract_json example_runtime (''Sure: '' @ example_deep_json) = Inl RecursionError"
proof -
  have h1: "CHR ''{'' \<notin> set ''no object here''" by simp
  have h2: "CHR ''}'' \<notin> set ''{ is never closed''" by simp
  have h3: "\<forall>i j. i < length ''}{'' \<and> j < length ''}{'' \<and> ''}{'' ! i = CHR ''{''
              \<and> ''}{'' ! j = CHR ''}'' \<longrightarrow> j < i"
    by (auto simp add: less_Suc_eq nth_Cons')
  have h4: "json_loads example_runtime ''{not json}'' = Inl JSONDecodeError"
    by (simp add: example_runtime_def example_loads_def example_text_json_def
          example_url_reply_def example_unknown_reply_def example_deep_differs)
  have h5: "''see {not json}.'' = ''see '' @ CHR ''{'' # ''not json'' @ CHR ''}'' # ''.''
            \<and> CHR ''{'' \<notin> set ''see '' \<and> CHR ''}'' \<notin> set ''.''
            \<and> json_loads example_runtime (CHR ''{'' # ''not json'' @ [CHR ''}''])
                = Inl JSONDecodeError"
    using h4 by simp
  have h6: "''Sure: '' @ example_deep_json
              = ''Sure: '' @ CHR ''{'' # example_deep_members @ CHR ''}'' # []
            \<and> CHR ''{'' \<notin> set ''Sure: '' \<and> CHR ''}'' \<notin> set []
            \<and> json_loads example_runtime (CHR ''{'' # example_deep_members @ [CHR ''}''])
                = Inl RecursionError"
    using example_deep_loads by (simp add: example_deep_json_def)
  have c1: "extract_json example_runtime ''no object here'' = Inl NoJSONObject"
    using extract_json_malformed [of "''no object here''" example_runtime] h1 by blast
  have c2: "extract_json example_runtime ''{ is never closed'' = Inl NoJSONObject"
    using extract_json_malformed [of "''{ is never closed''" example_runtime] h2 by blast
  have c3: "extract_json example_runtime ''}{'' = Inl NoJSONObject"
    using extract_json_malformed [of "''}{''" example_runtime] h3 by blast
  have c4: "extract_json example_runtime ''see {not json}.'' = Inl JSONDecodeError"
    using extract_json_malformed [of "''see {not json}.''" example_runtime
            "''see ''" "''not json''" "''.''"] h5 by blast
  have c5: "extract_json example_runtime (''Sure: '' @ example_deep_json) = Inl RecursionError"
    using extract_json_malformed [of "''Sure: '' @ example_deep_json" example_runtime
            "''Sure: ''" example_deep_members "[]"] h6 by blast
  from h1 h2 h4 c1 c2 c3 c4 c5 example_deep_loads show ?thesis
    by (intro conjI)
qed



subsection \<open>The analyzers and the orchestrator\<close>

lemma call_llm_requests:
  "requests (snd (call_llm rt self instruction user_message w)) =
     requests w @ [\<lparr> endpoint = ollama_url self @ ''/api/chat'', model_name = model self,
                     system_content = instruction, user_content = user_message \<rparr>]"
  by (simp add: call_llm_def Let_def split: list.split reply.split)

lemma call_llm_pending:
  "pending (snd (call_llm rt self instruction user_message w)) = tl (pending w)"
  by (simp add: call_llm_def Let_def split: list.split reply.split)

lemma call_llm_content:
  "pending w = Content raw # rest \<Longrightarrow>
     fst (call_llm rt self instruction user_message w) = extract_json rt raw"
  by (simp add: call_llm_def Let_def)

lemma call_llm_failure:
  "pending w = [] \<or> pending w = Unreachable # rest \<Longrightarrow>
     fst (call_llm rt self instruction user_message w) = Inl ConnectionError"
  "pending w = BadStatus # rest \<Longrightarrow>
     fst (call_llm rt self instruction user_message w) = Inl HTTPError"
  by (auto simp add: call_llm_def Let_def)

lemma example_text_call:
  "TextAgent_analyze example_runtime (text_agent example_analyzer) example_subject example_body
     \<lparr> pending = Content example_text_reply # rest, requests = sent \<rparr>
   = (Inr example_text,
      \<lparr> pending = rest,
        requests = sent @
          [\<lparr> endpoint = ''http://localhost:11434/api/chat'', model_name = ''llama3'',
              system_content = ''You are the TEXT AGENT'',
              user_content = TextAgent_prepare_input example_subject example_body \<rparr>] \<rparr>)"
proof -
  have "extract_json example_runtime (''Here is the result: '' @ example_text_json @ '' Stay safe.'')
          = Inr example_text"
    using extract_json_delimited [of "''Here is the result: ''" "'' Stay safe.''" example_runtime
            "butlast (tl example_text_json)"]
    by (simp add: example_text_json_def example_runtime_def example_loads_def)
  then show ?thesis
    by (simp add: TextAgent_analyze_def BaseAgent_analyze_def call_llm_def
          example_analyzer_def example_text_reply_def)
qed

lemma example_extract:
  "extract_json example_runtime example_url_reply = Inr example_url"
  "extract_json example_runtime example_unknown_reply = Inr example_unknown"
  "extract_json example_runtime ''{}'' = Inr []"
  "extract_json example_runtime ''I cannot help with that.'' = Inl NoJSONObject"
proof -
  show "extract_json example_runtime example_url_reply = Inr example_url"
    using extract_json_delimited [of "[]" "[]" example_runtime
            "butlast (tl example_url_reply)"]
    by (simp add: example_url_reply_def example_text_json_def example_runtime_def
          example_loads_def)
  show "extract_json example_runtime example_unknown_reply = Inr example_unknown"
    using extract_json_delimited [of "[]" "[]" example_runtime
            "butlast (tl example_unknown_reply)"]
    by (simp add: example_url_reply_def example_text_json_def example_unknown_reply_def
          example_runtime_def example_loads_def)
  show "extract_json example_runtime ''{}'' = Inr []"
    using extract_json_delimited [of "[]" "[]" example_runtime "[]"]
    by (simp add: example_url_reply_def example_text_json_def example_unknown_reply_def
          example_runtime_def example_loads_def)
  show "extract_json example_runtime ''I cannot help with that.'' = Inl NoJSONObject"
    by (simp add: extract_json_def str_find_notin)
qed

lemma example_analyze_text:
  "TextAgent_analyze example_runtime (text_agent example_analyzer) example_subject example_body
     (example_world (Content raw # rest))
   = (extract_json example_runtime raw,
      \<lparr> pending = rest,
        requests =
          [\<lparr> endpoint = ''http://localhost:11434/api/chat'', model_name = ''llama3'',
              system_content = ''You are the TEXT AGENT'',
              user_content = TextAgent_prepare_input example_subject example_body \<rparr>] \<rparr>)"
  by (simp add: TextAgent_analyze_def BaseAgent_analyze_def call_llm_def
        example_analyzer_def example_world_def)





lemma merge_results_fst_None:
  assumes "fst (merge_results rt t None) = Inr r"
  shows "url_agent_result r = None \<and> agents_used r = [(''text'', True), (''url'', False)]"
proof -
  from assms have "merge_results rt t None = (Inr r, snd (merge_results rt t None))"
    by (simp add: prod_eq_iff)
  from merge_results_InrD [OF this] show ?thesis
    by (auto simp add: merge_scores_def bind_err_def Let_def split: sum.splits)
qed

text \<open>
  Claim C9, whose statement fails for \<^verbatim>\<open>analyze_email\<close>: with an empty list, or with no
  list, the guard \<^verbatim>\<open>if urls\<close> skips the URL analyzer. The only request posted is the
  text analyzer's, which does not hold the marker (it has no parenthesis), and the
  reply that stood ready for the URL call is still pending.
\<close>

theorem empty_urls_counterexample:
  "map user_content (requests (snd (analyze_email example_runtime example_analyzer
       example_subject example_body (Some [])
       (example_world [Content example_text_reply, Content example_url_reply]))))
     = [TextAgent_prepare_input example_subject example_body]
   \<and> pending (snd (analyze_email example_runtime example_analyzer
       example_subject example_body (Some [])
       (example_world [Content example_text_reply, Content example_url_reply])))
     = [Content example_url_reply]
   \<and> map user_content (requests (snd (analyze_email example_runtime example_analyzer
       example_subject example_body None
       (example_world [Content example_text_reply, Content example_url_reply]))))
     = [TextAgent_prepare_input example_subject example_body]
   \<and> CHR ''('' \<notin> set (TextAgent_prepare_input example_subject example_body)
   \<and> CHR ''('' \<in> set ''(no URLs provided)''"
proof -
  have a: "\<And>urls. urls = None \<or> urls = Some [] \<Longrightarrow>
             snd (analyze_email example_runtime example_analyzer example_subject example_body urls
                    (example_world [Content example_text_reply, Content example_url_reply]))
             = \<lparr> pending = [Content example_url_reply],
                 requests =
                   [\<lparr> endpoint = ''http://localhost:11434/api/chat'', model_name = ''llama3'',
                       system_content = ''You are the TEXT AGENT'',
                       user_content = TextAgent_prepare_input example_subject example_body \<rparr>] \<rparr>"
    by (auto simp add: analyze_email_def example_world_def
          example_text_call [of _ "[]", simplified])
  have b: "CHR ''('' \<notin> set (TextAgent_prepare_input example_subject example_body)"
    by (simp add: TextAgent_prepare_input_def example_subject_def example_body_def)
  show ?thesis
    using b by (simp add: a)
qed

text \<open>
  Claim C9 as amended: the URL analyzer itself, given an empty or absent list, still
  posts one request, whose input is \<^verbatim>\<open>URLs to analyze:\<close> followed on the next line by
  \<^verbatim>\<open>(no URLs provided)\<close>. \<^verbatim>\<open>analyze_email\<close> with an empty or absent list does not
  call the URL analyzer: it posts the text analyzer's request and no other, and a
  Unified Verdict it returns has no URL result and \<^verbatim>\<open>agents_used.url\<close> false.
\<close>

theorem no_urls_marker:
  "urls = None \<or> urls = Some [] \<longrightarrow>
     URLAgent_prepare_input urls = ''URLs to analyze:'' @ [CHR 0x0A] @ ''(no URLs provided)''
   \<and> requests (snd (URLAgent_analyze rt agent urls w))
       = requests w @
           [\<lparr> endpoint = ollama_url agent @ ''/api/chat'', model_name = model agent,
               system_content = system_prompt agent,
               user_content = ''URLs to analyze:'' @ [CHR 0x0A] @ ''(no URLs provided)'' \<rparr>]
   \<and> requests (snd (analyze_email rt self subject body urls w))
       = requests w @
           [\<lparr> endpoint = ollama_url (text_agent self) @ ''/api/chat'',
               model_name = model (text_agent self),
               system_content = system_prompt (text_agent self),
               user_content = TextAgent_prepare_input subject body \<rparr>]
   \<and> pending (snd (analyze_email rt self subject body urls w)) = tl (pending w)
   \<and> (\<forall>r. fst (analyze_email rt self subject body urls w) = Inr r \<longrightarrow>
          url_agent_result r = None \<and> agents_used r = [(''text'', True), (''url'', False)])"
proof
  assume u: "urls = None \<or> urls = Some []"
  then have p: "URLAgent_prepare_input urls
                  = ''URLs to analyze:'' @ [CHR 0x0A] @ ''(no URLs provided)''"
    by (auto simp add: URLAgent_prepare_input_def)
  have q: "requests (snd (URLAgent_analyze rt agent urls w))
       = requests w @
           [\<lparr> endpoint = ollama_url agent @ ''/api/chat'', model_name = model agent,
               system_content = system_prompt agent,
               user_content = ''URLs to analyze:'' @ [CHR 0x0A] @ ''(no URLs provided)'' \<rparr>]"
    unfolding URLAgent_analyze_def BaseAgent_analyze_def call_llm_requests p ..
  obtain res w1 where t: "TextAgent_analyze rt (text_agent self) subject body w = (res, w1)"
    by (cases "TextAgent_analyze rt (text_agent self) subject body w") auto
  have w1: "requests w1 = requests w @
           [\<lparr> endpoint = ollama_url (text_agent self) @ ''/api/chat'',
               model_name = model (text_agent self),
               system_content = system_prompt (text_agent self),
               user_content = TextAgent_prepare_input subject body \<rparr>]"
      "pending w1 = tl (pending w)"
    using t call_llm_requests [of rt "text_agent self" "system_prompt (text_agent self)"
            "TextAgent_prepare_input subject body" w]
          call_llm_pending [of rt "text_agent self" "system_prompt (text_agent self)"
            "TextAgent_prepare_input subject body" w]
    by (simp_all add: TextAgent_analyze_def BaseAgent_analyze_def)
  have a: "analyze_email rt self subject body urls w =
             (case res of Inl e \<Rightarrow> Inl e | Inr text_result \<Rightarrow> fst (merge_results rt text_result None), w1)"
    using u t by (auto simp add: analyze_email_def split: sum.split)
  have r: "\<forall>r. fst (analyze_email rt self subject body urls w) = Inr r \<longrightarrow>
          url_agent_result r = None \<and> agents_used r = [(''text'', True), (''url'', False)]"
    using a merge_results_fst_None by (auto split: sum.splits)
  from p q w1 a r
  show "URLAgent_prepare_input urls = ''URLs to analyze:'' @ [CHR 0x0A] @ ''(no URLs provided)''
   \<and> requests (snd (URLAgent_analyze rt agent urls w))
       = requests w @
           [\<lparr> endpoint = ollama_url agent @ ''/api/chat'', model_name = model agent,
               system_content = system_prompt agent,
               user_content = ''URLs to analyze:'' @ [CHR 0x0A] @ ''(no URLs provided)'' \<rparr>]
   \<and> requests (snd (analyze_email rt self subject body urls w))
       = requests w @
           [\<lparr> endpoint = ollama_url (text_agent self) @ ''/api/chat'',
               model_name = model (text_agent self),
               system_content = system_prompt (text_agent self),
               user_content = TextAgent_prepare_input subject body \<rparr>]
   \<and> pending (snd (analyze_email rt self subject body urls w)) = tl (pending w)
   \<and> (\<forall>r. fst (analyze_email rt self subject body urls w) = Inr r \<longrightarrow>
          url_agent_result r = None \<and> agents_used r = [(''text'', True), (''url'', False)])"
    by simp
qed

theorem no_urls_marker_witness:
  "URLAgent_prepare_input (Some []) = ''URLs to analyze:'' @ [CHR 0x0A] @ ''(no URLs provided)''
   \<and> URLAgent_prepare_input None = ''URLs to analyze:'' @ [CHR 0x0A] @ ''(no URLs provided)''
   \<and> map user_content (requests (snd (URLAgent_analyze example_runtime
        (url_agent example_analyzer) (Some []) (example_world [Content example_url_reply]))))
     = [''URLs to analyze:'' @ [CHR 0x0A] @ ''(no URLs provided)'']
   \<and> map user_content (requests (snd (analyze_email example_runtime example_analyzer
        example_subject example_body (Some [])
        (example_world [Content example_text_reply, Content example_url_reply]))))
     = [TextAgent_prepare_input example_subject example_body]"
  using no_urls_marker [where urls = "Some []" and rt = example_runtime
          and agent = "url_agent example_analyzer"
          and w = "example_world [Content example_url_reply]"]
        no_urls_marker [where urls = None]
        no_urls_marker [where urls = "Some []" and rt = example_runtime
          and self = example_analyzer and subject = example_subject and body = example_body
          and w = "example_world [Content example_text_reply, Content example_url_reply]"]
  by (simp add: example_world_def)

subsection \<open>Results that break the schema\<close>

lemma scores_get_unknown:
  assumes "map_of d ''verdict'' = None
           \<or> (\<exists>s. map_of d ''verdict'' = Some (JStr s)
                  \<and> s \<noteq> ''phishing'' \<and> s \<noteq> ''legitimate'' \<and> s \<noteq> ''unsure'')"
  shows "scores_get (dict_get d ''verdict'' (JStr ''unsure'')) = Inr (Finite (1 / 2))"
  using assms by (auto simp add: dict_get_def verdict_scores_def float_lit_values)

lemma dict_get_Cons:
  "dict_get ((k, v) # d) k' dflt = (if k = k' then v else dict_get d k' dflt)"
  by (simp add: dict_get_def)

lemma store_indicators_Cons:
  "k \<noteq> ''phishing_indicators'' \<Longrightarrow>
     store_indicators ((k, v) # d) obj = (k, v) # store_indicators d obj"
  by (simp add: store_indicators_def split: option.split)

lemma compile_indicators_Cons:
  "k \<noteq> ''phishing_indicators'' \<Longrightarrow>
     compile_indicators ((k, v) # d) u =
       (case compile_indicators d u of (err, obj, d') \<Rightarrow> (err, obj, (k, v) # d'))"
  by (simp add: compile_indicators_def dict_get_Cons store_indicators_Cons Let_def
        split: option.split sum.split prod.split)

lemma merge_scores_text_cong:
  assumes "scores_get (dict_get d1 ''verdict'' (JStr ''unsure''))
             = scores_get (dict_get d2 ''verdict'' (JStr ''unsure''))"
    and "dict_get d1 ''confidence'' (JFloat (float_lit (1 / 2)))
             = dict_get d2 ''confidence'' (JFloat (float_lit (1 / 2)))"
  shows "merge_scores d1 u = merge_scores d2 u"
  unfolding merge_scores_def by (simp only: assms)

lemma merge_scores_url_cong:
  assumes "scores_get (dict_get d1 ''verdict'' (JStr ''unsure''))
             = scores_get (dict_get d2 ''verdict'' (JStr ''unsure''))"
    and "dict_get d1 ''confidence'' (JFloat (float_lit (1 / 2)))
             = dict_get d2 ''confidence'' (JFloat (float_lit (1 / 2)))"
    and "d1 \<noteq> []" and "d2 \<noteq> []"
  shows "merge_scores t (Some d1) = merge_scores t (Some d2)"
  unfolding merge_scores_def using assms(3,4) by (simp add: assms(1,2) del: scores_get.simps)

lemma example_unknown_merge:
  "merge_results example_runtime example_unknown None
     = (Inr \<lparr> task = ''email_phishing_detection'', verdict = ''unsure'',
              confidence = JFloat (Finite 1), phishing_indicators = [],
              legitimacy_indicators = JList [],
              agents_used = [(''text'', True), (''url'', False)],
              text_agent_result = example_unknown, url_agent_result = None,
              overall_rationale = ''Based on text analysis: '',
              safety_notes = JStr '''' \<rparr>, example_unknown)"
proof -
  have s: "merge_scores example_unknown None = Inr (Finite (1 / 2), JFloat (Finite 1), False)"
    by (simp add: merge_scores_def example_unknown_def dict_get_def verdict_scores_def
          float_times_def float_eval)
  have c: "compile_indicators example_unknown None = (None, JList [], example_unknown)"
    by (simp add: example_unknown_def dict_get_def)
  have r: "py_round2 (JFloat (Finite 1)) = Inr (JFloat (Finite 1))"
    by (simp add: float_eval)
  have l: "list_set example_runtime (JList []) = Inr []"
    by (simp add: list_set_def example_runtime_def)
  have v: "final_verdict (Finite (1 / 2)) = ''unsure''"
    by (simp add: final_verdict_def float_eval)
  have b: "build_rationale example_runtime ''unsure'' example_unknown None
             = ''Based on text analysis: ''"
    by (simp add: build_rationale_def py_format_def example_unknown_def dict_get_def)
  have n: "dict_get example_unknown ''legitimacy_indicators'' (JList []) = JList []"
          "dict_get example_unknown ''safety_notes'' (JStr []) = JStr []"
    by (simp_all add: example_unknown_def dict_get_def)
  show ?thesis
    by (simp add: merge_results_returns [OF s c r l] v b n)
qed

lemma example_empty_merge:
  "merge_results example_runtime [] None
     = (Inr \<lparr> task = ''email_phishing_detection'', verdict = ''legitimate'',
              confidence = JFloat (Finite (1 / 2)), phishing_indicators = [],
              legitimacy_indicators = JList [],
              agents_used = [(''text'', True), (''url'', False)],
              text_agent_result = [], url_agent_result = None,
              overall_rationale = ''Based on text analysis: '',
              safety_notes = JStr '''' \<rparr>, [])"
proof -
  have s: "merge_scores [] None = Inr (Finite (1 / 4), JFloat (Finite (1 / 2)), False)"
    by (simp add: merge_scores_def dict_get_def verdict_scores_def float_times_def float_eval)
  have c: "compile_indicators [] None = (None, JList [], [])"
    by (simp add: dict_get_def)
  have r: "py_round2 (JFloat (Finite (1 / 2))) = Inr (JFloat (Finite (1 / 2)))"
    by (simp add: float_eval)
  have l: "list_set example_runtime (JList []) = Inr []"
    by (simp add: list_set_def example_runtime_def)
  have v: "final_verdict (Finite (1 / 4)) = ''legitimate''"
    by (simp add: final_verdict_def float_eval)
  show ?thesis
    by (simp add: merge_results_returns [OF s c r l] v build_rationale_def py_format_def
          dict_get_def)
qed

lemma url_indicators_Cons:
  "k \<noteq> ''url_details'' \<Longrightarrow> url_indicators ((k, v) # d) = url_indicators d"
  by (simp add: url_indicators_def dict_get_Cons)

lemma compile_indicators_url_Cons:
  "k \<noteq> ''url_details'' \<Longrightarrow> d \<noteq> [] \<Longrightarrow>
     compile_indicators t (Some ((k, v) # d)) = compile_indicators t (Some d)"
  by (simp add: compile_indicators_def url_indicators_Cons if_truthy_def)

lemma merge_scores_unhashable:
  assumes "map_of b ''verdict'' = Some (JList xs) \<or> map_of b ''verdict'' = Some (JDict kvs)"
  shows "merge_scores b u = Inl TypeError" "merge_scores t (Some b) = Inl TypeError"
proof -
  from assms have s: "scores_get (dict_get b ''verdict'' (JStr ''unsure'')) = Inl TypeError"
    by (auto simp add: dict_get_def)
  from assms have n: "b \<noteq> []" by auto
  show "merge_scores b u = Inl TypeError"
    by (simp add: merge_scores_def s del: scores_get.simps)
  from n show "merge_scores t (Some b) = Inl TypeError"
    by (cases "scores_get (dict_get t ''verdict'' (JStr ''unsure''))")
       (simp_all add: merge_scores_def s if_truthy_def del: scores_get.simps,
        auto simp add: bind_err_def elim: scores_get.elims)
qed

lemma build_rationale_url_Cons:
  "k \<noteq> ''overall_rationale'' \<Longrightarrow> d \<noteq> [] \<Longrightarrow>
     build_rationale rt v t (Some ((k, v') # d)) = build_rationale rt v t (Some d)"
  by (simp add: build_rationale_def dict_get_Cons)

lemma merge_results_url_Cons:
  assumes "merge_scores t (Some ((k, v) # d)) = merge_scores t (Some d)"
    and "k \<noteq> ''url_details''" and "k \<noteq> ''overall_rationale''" and "d \<noteq> []"
  shows "snd (merge_results rt t (Some ((k, v) # d))) = snd (merge_results rt t (Some d))"
    and "map_sum id (\<lambda>r. r\<lparr>url_agent_result := None\<rparr>)
           (fst (merge_results rt t (Some ((k, v) # d))))
         = map_sum id (\<lambda>r. r\<lparr>url_agent_result := None\<rparr>)
             (fst (merge_results rt t (Some d)))"
  using assms(2-4)
  by (simp_all add: merge_results_def assms(1) compile_indicators_url_Cons
        build_rationale_url_Cons bind_err_def
        split: sum.split prod.split option.split)

lemma merge_results_unhashable:
  assumes "map_of b ''verdict'' = Some (JList xs) \<or> map_of b ''verdict'' = Some (JDict kvs)"
  shows "merge_results rt b u = (Inl TypeError, b)"
    and "merge_results rt t (Some b) = (Inl TypeError, t)"
  by (simp_all add: merge_results_def merge_scores_unhashable [OF assms])

text \<open>
  Claim C1, whose statement fails: nothing validates an analyzer result. A reply whose
  verdict is \<^verbatim>\<open>malicious\<close> goes through \<^verbatim>\<open>analyze_email\<close> and comes out as a Unified
  Verdict \<^verbatim>\<open>unsure\<close>, the unknown verdict still embedded; the reply \<^verbatim>\<open>{}\<close>, with
  no verdict at all, comes out as \<^verbatim>\<open>legitimate\<close> with confidence 0.5.
\<close>

theorem unknown_verdict_counterexample:
  "map_sum id verdict
       (fst (analyze_email example_runtime example_analyzer example_subject example_body None
               (example_world [Content example_unknown_reply])))
     = Inr ''unsure''
   \<and> map_sum id text_agent_result
       (fst (analyze_email example_runtime example_analyzer example_subject example_body None
               (example_world [Content example_unknown_reply])))
     = Inr [(''verdict'', JStr ''malicious''), (''confidence'', JFloat (float_lit 1))]
   \<and> map_sum id verdict
       (fst (analyze_email example_runtime example_analyzer example_subject example_body None
               (example_world [Content ''{}''])))
     = Inr ''legitimate''
   \<and> map_sum id confidence
       (fst (analyze_email example_runtime example_analyzer example_subject example_body None
               (example_world [Content ''{}''])))
     = Inr (JFloat (float_lit (1 / 2)))"
  by (simp add: analyze_email_def example_analyze_text example_extract example_unknown_merge
        example_empty_merge float_lit_values)
     (simp add: example_unknown_def float_lit_values)

text \<open>
  Claim C1 as amended. An analyzer result whose verdict is absent, or is a string other
  than the three names, is not rejected. The analyzer returns whatever object the
  extractor found, and the merge gives such a verdict the score 0.5, the score of
  \<^verbatim>\<open>unsure\<close>. Merged as the text result, the record gives the combined score and
  confidence, and the verdict and confidence of the Unified Verdict, of the same record
  with the verdict \<^verbatim>\<open>unsure\<close> put in front. Merged as a URL result, a record that is
  not empty gives the same scores, leaves the same text record behind and returns the
  same outcome as with \<^verbatim>\<open>unsure\<close> put in front, the embedded \<^verbatim>\<open>url_agent_result\<close>
  apart (an empty URL result is merged as an absent one). A verdict that is a list or
  an object makes the merge raise \<^verbatim>\<open>TypeError\<close>, in either position and with the text
  record unchanged; \<^verbatim>\<open>TypeError\<close> is not a \<^verbatim>\<open>ValueError\<close>, so no Malformed Output error
  is raised for it either.
\<close>

theorem unknown_verdict_not_rejected:
  "(map_of d ''verdict'' = None
      \<or> (\<exists>s. map_of d ''verdict'' = Some (JStr s)
             \<and> s \<noteq> ''phishing'' \<and> s \<noteq> ''legitimate'' \<and> s \<noteq> ''unsure'')
    \<longrightarrow> scores_get (dict_get d ''verdict'' (JStr ''unsure'')) = scores_get (JStr ''unsure'')
       \<and> scores_get (JStr ''unsure'') = Inr (Finite (1 / 2))
       \<and> merge_scores d u = merge_scores ((''verdict'', JStr ''unsure'') # d) u
       \<and> map_sum id verdict (fst (merge_results rt d u))
           = map_sum id verdict (fst (merge_results rt ((''verdict'', JStr ''unsure'') # d) u))
       \<and> map_sum id confidence (fst (merge_results rt d u))
           = map_sum id confidence (fst (merge_results rt ((''verdict'', JStr ''unsure'') # d) u))
       \<and> (d \<noteq> [] \<longrightarrow>
            merge_scores t (Some d) = merge_scores t (Some ((''verdict'', JStr ''unsure'') # d))
          \<and> snd (merge_results rt t (Some d))
              = snd (merge_results rt t (Some ((''verdict'', JStr ''unsure'') # d)))
          \<and> map_sum id (\<lambda>r. r\<lparr>url_agent_result := None\<rparr>)
                (fst (merge_results rt t (Some d)))
              = map_sum id (\<lambda>r. r\<lparr>url_agent_result := None\<rparr>)
                  (fst (merge_results rt t (Some ((''verdict'', JStr ''unsure'') # d))))))
   \<and> (pending w = Content raw # rest \<and> extract_json rt raw = Inr a \<longrightarrow>
          fst (TextAgent_analyze rt agent subject body w) = Inr a
        \<and> fst (URLAgent_analyze rt agent urls w) = Inr a)
   \<and> (map_of b ''verdict'' = Some (JList xs) \<or> map_of b ''verdict'' = Some (JDict kvs)
        \<longrightarrow> merge_results rt b u = (Inl TypeError, b)
          \<and> merge_results rt t (Some b) = (Inl TypeError, t))
   \<and> \<not> is_ValueError TypeError"
proof -
  have p1: "map_of d ''verdict'' = None
      \<or> (\<exists>s. map_of d ''verdict'' = Some (JStr s)
             \<and> s \<noteq> ''phishing'' \<and> s \<noteq> ''legitimate'' \<and> s \<noteq> ''unsure'')
    \<longrightarrow> scores_get (dict_get d ''verdict'' (JStr ''unsure'')) = scores_get (JStr ''unsure'')
       \<and> scores_get (JStr ''unsure'') = Inr (Finite (1 / 2))
       \<and> merge_scores d u = merge_scores ((''verdict'', JStr ''unsure'') # d) u
       \<and> map_sum id verdict (fst (merge_results rt d u))
           = map_sum id verdict (fst (merge_results rt ((''verdict'', JStr ''unsure'') # d) u))
       \<and> map_sum id confidence (fst (merge_results rt d u))
           = map_sum id confidence (fst (merge_results rt ((''verdict'', JStr ''unsure'') # d) u))
       \<and> (d \<noteq> [] \<longrightarrow>
            merge_scores t (Some d) = merge_scores t (Some ((''verdict'', JStr ''unsure'') # d))
          \<and> snd (merge_results rt t (Some d))
              = snd (merge_results rt t (Some ((''verdict'', JStr ''unsure'') # d)))
          \<and> map_sum id (\<lambda>r. r\<lparr>url_agent_result := None\<rparr>)
                (fst (merge_results rt t (Some d)))
              = map_sum id (\<lambda>r. r\<lparr>url_agent_result := None\<rparr>)
                  (fst (merge_results rt t (Some ((''verdict'', JStr ''unsure'') # d)))))"
  proof
    assume h: "map_of d ''verdict'' = None
      \<or> (\<exists>s. map_of d ''verdict'' = Some (JStr s)
             \<and> s \<noteq> ''phishing'' \<and> s \<noteq> ''legitimate'' \<and> s \<noteq> ''unsure'')"
    note g = scores_get_unknown [OF h]
    have e: "scores_get (JStr ''unsure'') = Inr (Finite (1 / 2))"
      by (rule scores_get_enum)
    have v: "scores_get (dict_get d ''verdict'' (JStr ''unsure''))
               = scores_get (dict_get ((''verdict'', JStr ''unsure'') # d) ''verdict''
                   (JStr ''unsure''))"
      by (simp add: dict_get_def g [unfolded dict_get_def] e del: scores_get.simps)
    have k: "dict_get d ''confidence'' (JFloat (float_lit (1 / 2)))
               = dict_get ((''verdict'', JStr ''unsure'') # d) ''confidence''
                   (JFloat (float_lit (1 / 2)))"
      by (simp add: dict_get_Cons)
    have m: "merge_scores d u = merge_scores ((''verdict'', JStr ''unsure'') # d) u"
      using v k by (rule merge_scores_text_cong)
    have c: "compile_indicators ((''verdict'', JStr ''unsure'') # d) u =
         (case compile_indicators d u of (err, obj, d') \<Rightarrow>
            (err, obj, (''verdict'', JStr ''unsure'') # d'))"
      by (rule compile_indicators_Cons) simp
    have r: "map_sum id verdict (fst (merge_results rt d u))
             = map_sum id verdict (fst (merge_results rt ((''verdict'', JStr ''unsure'') # d) u))"
         "map_sum id confidence (fst (merge_results rt d u))
             = map_sum id confidence
                 (fst (merge_results rt ((''verdict'', JStr ''unsure'') # d) u))"
      by (simp_all add: merge_results_def m [symmetric] c bind_err_def
            split: sum.split prod.split option.split)
    have q: "d \<noteq> [] \<longrightarrow>
            merge_scores t (Some d) = merge_scores t (Some ((''verdict'', JStr ''unsure'') # d))
          \<and> snd (merge_results rt t (Some d))
              = snd (merge_results rt t (Some ((''verdict'', JStr ''unsure'') # d)))
          \<and> map_sum id (\<lambda>r. r\<lparr>url_agent_result := None\<rparr>)
                (fst (merge_results rt t (Some d)))
              = map_sum id (\<lambda>r. r\<lparr>url_agent_result := None\<rparr>)
                  (fst (merge_results rt t (Some ((''verdict'', JStr ''unsure'') # d))))"
    proof
      assume n: "d \<noteq> []"
      have m': "merge_scores t (Some d)
                  = merge_scores t (Some ((''verdict'', JStr ''unsure'') # d))"
        using merge_scores_url_cong [OF v k n] by simp
      have x: "''verdict'' \<noteq> ''url_details''" "''verdict'' \<noteq> ''overall_rationale''"
        by simp_all
      from m' merge_results_url_Cons [OF m' [symmetric] x n, of rt]
      show "merge_scores t (Some d) = merge_scores t (Some ((''verdict'', JStr ''unsure'') # d))
          \<and> snd (merge_results rt t (Some d))
              = snd (merge_results rt t (Some ((''verdict'', JStr ''unsure'') # d)))
          \<and> map_sum id (\<lambda>r. r\<lparr>url_agent_result := None\<rparr>)
                (fst (merge_results rt t (Some d)))
              = map_sum id (\<lambda>r. r\<lparr>url_agent_result := None\<rparr>)
                  (fst (merge_results rt t (Some ((''verdict'', JStr ''unsure'') # d))))"
        by simp
    qed
    from g e m r q
    show "scores_get (dict_get d ''verdict'' (JStr ''unsure'')) = scores_get (JStr ''unsure'')
       \<and> scores_get (JStr ''unsure'') = Inr (Finite (1 / 2))
       \<and> merge_scores d u = merge_scores ((''verdict'', JStr ''unsure'') # d) u
       \<and> map_sum id verdict (fst (merge_results rt d u))
           = map_sum id verdict (fst (merge_results rt ((''verdict'', JStr ''unsure'') # d) u))
       \<and> map_sum id confidence (fst (merge_results rt d u))
           = map_sum id confidence (fst (merge_results rt ((''verdict'', JStr ''unsure'') # d) u))
       \<and> (d \<noteq> [] \<longrightarrow>
            merge_scores t (Some d) = merge_scores t (Some ((''verdict'', JStr ''unsure'') # d))
          \<and> snd (merge_results rt t (Some d))
              = snd (merge_results rt t (Some ((''verdict'', JStr ''unsure'') # d)))
          \<and> map_sum id (\<lambda>r. r\<lparr>url_agent_result := None\<rparr>)
                (fst (merge_results rt t (Some d)))
              = map_sum id (\<lambda>r. r\<lparr>url_agent_result := None\<rparr>)
                  (fst (merge_results rt t (Some ((''verdict'', JStr ''unsure'') # d)))))"
      by (simp only: simp_thms)
  qed
  have p2: "pending w = Content raw # rest \<and> extract_json rt raw = Inr a \<longrightarrow>
          fst (TextAgent_analyze rt agent subject body w) = Inr a
        \<and> fst (URLAgent_analyze rt agent urls w) = Inr a"
    by (simp add: TextAgent_analyze_def URLAgent_analyze_def BaseAgent_analyze_def
          call_llm_content)
  have p3: "map_of b ''verdict'' = Some (JList xs) \<or> map_of b ''verdict'' = Some (JDict kvs)
        \<longrightarrow> merge_results rt b u = (Inl TypeError, b)
          \<and> merge_results rt t (Some b) = (Inl TypeError, t)"
    using merge_results_unhashable by blast
  have p4: "\<not> is_ValueError TypeError"
    by simp
  from p1 p2 p3 p4 show ?thesis
    by (intro conjI)
qed

theorem unknown_verdict_not_rejected_witness:
  "map_of example_unknown ''verdict'' = Some (JStr ''malicious'')
   \<and> ''malicious'' \<noteq> ''phishing'' \<and> ''malicious'' \<noteq> ''legitimate''
   \<and> ''malicious'' \<noteq> ''unsure''
   \<and> scores_get (dict_get example_unknown ''verdict'' (JStr ''unsure''))
       = scores_get (JStr ''unsure'')
   \<and> merge_scores example_unknown None
       = merge_scores ((''verdict'', JStr ''unsure'') # example_unknown) None
   \<and> map_sum id verdict (fst (merge_results example_runtime example_unknown None))
       = map_sum id verdict
           (fst (merge_results example_runtime
                   ((''verdict'', JStr ''unsure'') # example_unknown) None))
   \<and> map_sum id verdict (fst (merge_results example_runtime example_unknown None))
       = Inr ''unsure''
   \<and> example_unknown \<noteq> []
   \<and> merge_scores example_text (Some example_unknown)
       = merge_scores example_text (Some ((''verdict'', JStr ''unsure'') # example_unknown))
   \<and> snd (merge_results example_runtime example_text (Some example_unknown))
       = snd (merge_results example_runtime example_text
                (Some ((''verdict'', JStr ''unsure'') # example_unknown)))
   \<and> pending (example_world [Content example_unknown_reply])
       = Content example_unknown_reply # []
   \<and> extract_json example_runtime example_unknown_reply = Inr example_unknown
   \<and> fst (TextAgent_analyze example_runtime (text_agent example_analyzer) example_subject
            example_body (example_world [Content example_unknown_reply]))
       = Inr example_unknown
   \<and> map_of example_list_verdict ''verdict'' = Some (JList [JStr ''phishing''])
   \<and> merge_results example_runtime example_list_verdict None
       = (Inl TypeError, example_list_verdict)
   \<and> merge_results example_runtime example_text (Some example_list_verdict)
       = (Inl TypeError, example_text)"
proof -
  note inst = unknown_verdict_not_rejected [where d = example_unknown and u = None
      and rt = example_runtime and t = example_text
      and w = "example_world [Content example_unknown_reply]"
      and raw = example_unknown_reply and rest = "[]" and a = example_unknown
      and agent = "text_agent example_analyzer" and subject = example_subject
      and body = example_body and b = example_list_verdict and xs = "[JStr ''phishing'']"]
  have h: "map_of example_unknown ''verdict'' = Some (JStr ''malicious'')"
    by (simp add: example_unknown_def)
  have m1: "''malicious'' \<noteq> ''phishing''" by simp
  have m2: "''malicious'' \<noteq> ''legitimate''" by simp
  have m3: "''malicious'' \<noteq> ''unsure''" by simp
  from h m1 m2 m3
  have a: "map_of example_unknown ''verdict'' = None
           \<or> (\<exists>s. map_of example_unknown ''verdict'' = Some (JStr s)
                  \<and> s \<noteq> ''phishing'' \<and> s \<noteq> ''legitimate'' \<and> s \<noteq> ''unsure'')"
    by blast
  have n: "example_unknown \<noteq> []"
    by (simp add: example_unknown_def)
  have p: "pending (example_world [Content example_unknown_reply])
             = Content example_unknown_reply # []"
    by (simp add: example_world_def)
  have x: "extract_json example_runtime example_unknown_reply = Inr example_unknown"
    by (rule example_extract(2))
  have l: "map_of example_list_verdict ''verdict'' = Some (JList [JStr ''phishing''])"
    by (simp add: example_list_verdict_def)
  have v: "map_sum id verdict (fst (merge_results example_runtime example_unknown None))
       = Inr ''unsure''"
    by (simp add: example_unknown_merge)
  from inst a
  have c1: "scores_get (dict_get example_unknown ''verdict'' (JStr ''unsure''))
       = scores_get (JStr ''unsure'')"
   and c2: "merge_scores example_unknown None
       = merge_scores ((''verdict'', JStr ''unsure'') # example_unknown) None"
   and c3: "map_sum id verdict (fst (merge_results example_runtime example_unknown None))
       = map_sum id verdict
           (fst (merge_results example_runtime
                   ((''verdict'', JStr ''unsure'') # example_unknown) None))"
    by blast+
  from inst a n
  have c4: "merge_scores example_text (Some example_unknown)
       = merge_scores example_text (Some ((''verdict'', JStr ''unsure'') # example_unknown))"
   and c5: "snd (merge_results example_runtime example_text (Some example_unknown))
       = snd (merge_results example_runtime example_text
                (Some ((''verdict'', JStr ''unsure'') # example_unknown)))"
    by blast+
  from inst p x
  have c6: "fst (TextAgent_analyze example_runtime (text_agent example_analyzer) example_subject
            example_body (example_world [Content example_unknown_reply]))
       = Inr example_unknown"
    by blast
  from inst l
  have c7: "merge_results example_runtime example_list_verdict None
       = (Inl TypeError, example_list_verdict)"
   and c8: "merge_results example_runtime example_text (Some example_list_verdict)
       = (Inl TypeError, example_text)"
    by blast+
  from h m1 m2 m3 c1 c2 c3 v n c4 c5 p x c6 l c7 c8
  show ?thesis
    by (intro conjI)
qed

end
